theory Spec2Isabelle
  imports Main "HOL-Library.Finite_Map" "HOL-Library.Multiset" "HOL-Library.Word"
begin

section \<open>The PDF object model the program reads\<close>

text \<open>
  The program (\<^verbatim>\<open>cmder/main.go\<close>) inspects a document through the pdfcpu library.
  The library is not part of the repository; what the program uses of it is modelled here
  as data and as parameters:
  \<^item> \<^verbatim>\<open>types.IndirectRef\<close> is a pair of an object number and a generation number;
  \<^item> \<^verbatim>\<open>types.Object\<close> is an interface; the program tells apart, by type assertion,
    dictionaries, indirect references, names, and (through the typed accessors) integers and
    arrays. A nil interface value is \<open>types_Nil\<close>; every other kind of object (floats,
    string literals, stream dictionaries as objects, ...) fails each of these assertions in
    the same way and is \<open>types_Other\<close>;
  \<^item> \<^verbatim>\<open>types.Dict\<close> is a Go \<^verbatim>\<open>map[string]Object\<close>: a finite map. The order in which a
    \<^verbatim>\<open>range\<close> statement visits its keys is chosen by the Go runtime and is an explicit
    parameter of the model (see \<open>rangeOrder\<close>).
\<close>

record IndirectRef =
  ObjectNumber :: int
  GenerationNumber :: int

datatype object =
    types_Nil
  | types_Boolean bool
  | types_Integer int
  | types_Name string
  | types_Array "object list"
  | types_Dict "(string, object) fmap"
  | types_IndirectRef IndirectRef
  | types_Other

type_synonym Dict = "(string, object) fmap"

text \<open>\<^verbatim>\<open>types.PDFFilter\<close>: the field \<^verbatim>\<open>Name\<close> is \<open>Name_PDFFilter\<close> here, since
  \<open>Name\<close> is a field of the program's own \<open>ImageInfo\<close>.\<close>

record PDFFilter =
  Name_PDFFilter :: string
  DecodeParms :: Dict

text \<open>\<^verbatim>\<open>types.StreamDict\<close>: the embedded dictionary, the stored (still encoded) bytes and the
  filter pipeline. The library method \<^verbatim>\<open>Image()\<close> is not defined in the repository; its
  answer on a stream dictionary is the field \<open>Image_StreamDict\<close> (\<open>Image\<close> is the image of a
  set under a relation in HOL).\<close>

record StreamDict =
  Dict :: Dict
  Raw :: "8 word list"
  FilterPipeline :: "PDFFilter list"
  Image_StreamDict :: bool

text \<open>Errors are values. \<open>ErrLibrary\<close> is an error returned by the library;
  the other constructors are the three \<^verbatim>\<open>fmt.Errorf\<close> calls of the program, the last two
  wrapping their cause (\<^verbatim>\<open>%w\<close>).\<close>

datatype error =
    ErrLibrary string
  | ErrNoPages
  | ErrGetPageDict error
  | ErrExtractPage int error

text \<open>A call either returns an error or panics: Go's \<^verbatim>\<open>(*types.StreamDict, error)\<close> admits a nil
  pointer with a nil error, and the method call \<^verbatim>\<open>xObjDict.Image()\<close> (a value receiver)
  dereferences that pointer. The program has no \<^verbatim>\<open>recover\<close>, so a panic ends the run.\<close>

datatype abort = Error error | NilPointerPanic

text \<open>\<^verbatim>\<open>model.Context\<close> with its \<^verbatim>\<open>XRefTable\<close>: the page count and the three library
  calls of the program, as parameters. \<open>DereferenceXObjectDict\<close> returns \<open>Inr None\<close> for a nil
  pointer without an error. A nil \<^verbatim>\<open>types.Dict\<close> behaves as the empty map under
  \<^verbatim>\<open>Find\<close>.\<close>

record Context =
  PageCount :: int
  PageDict :: "int \<Rightarrow> error + Dict"
  Dereference :: "IndirectRef \<Rightarrow> error + object"
  DereferenceXObjectDict :: "IndirectRef \<Rightarrow> error + StreamDict option"

subsection \<open>Typed accessors of a dictionary\<close>

text \<open>\<^verbatim>\<open>Dict.Find\<close> is \<open>fmlookup\<close>. \<^verbatim>\<open>IntEntry\<close> and \<^verbatim>\<open>NameEntry\<close> return a nil pointer
  (\<open>None\<close>) when the key is absent or its value has another type; \<^verbatim>\<open>ArrayEntry\<close> returns
  a nil slice (\<open>[]\<close>) then.\<close>

definition IntEntry :: "Dict \<Rightarrow> string \<Rightarrow> int option" where
  "IntEntry d key =
     (case fmlookup d key of
        Some (types_Integer i) \<Rightarrow> Some i
      | _ \<Rightarrow> None)"

definition NameEntry :: "Dict \<Rightarrow> string \<Rightarrow> string option" where
  "NameEntry d key =
     (case fmlookup d key of
        Some (types_Name s) \<Rightarrow> Some s
      | _ \<Rightarrow> None)"

definition ArrayEntry :: "Dict \<Rightarrow> string \<Rightarrow> object list" where
  "ArrayEntry d key =
     (case fmlookup d key of
        Some (types_Array a) \<Rightarrow> a
      | _ \<Rightarrow> [])"

text \<open>\<^verbatim>\<open>strings.Join\<close>.\<close>

fun strings_Join :: "string list \<Rightarrow> string \<Rightarrow> string" where
  "strings_Join [] sep = []"
| "strings_Join [s] sep = s"
| "strings_Join (s # t # ss) sep = s @ sep @ strings_Join (t # ss) sep"

section \<open>The program\<close>

record ImageInfo =
  PageNr :: int
  ObjectNr :: int
  GenNr :: int
  Name :: string
  Width :: int
  Height :: int
  ColorSpace :: string
  BitsPerComp :: int
  Filter :: string
  Size :: int

subsection \<open>extractImageInfo\<close>

text \<open>The struct literal sets five fields; the others start at Go's zero values
  (\<open>0\<close> and the empty string). \<^verbatim>\<open>Size\<close> is \<^verbatim>\<open>int64(len(sd.Raw))\<close>.\<close>

definition extractImageInfo ::
  "Context \<Rightarrow> int \<Rightarrow> string \<Rightarrow> IndirectRef \<Rightarrow> StreamDict \<Rightarrow> ImageInfo" where
  "extractImageInfo ctx pageNr name ir sd =
     (let imgInfo = \<lparr>PageNr = pageNr, ObjectNr = ObjectNumber ir, GenNr = GenerationNumber ir,
                     Name = name, Width = 0, Height = 0, ColorSpace = [], BitsPerComp = 0,
                     Filter = [], Size = int (length (Raw sd))\<rparr>;
          imgInfo = (case IntEntry (Dict sd) ''Width'' of
                       Some width \<Rightarrow> imgInfo\<lparr>Width := width\<rparr>
                     | None \<Rightarrow> imgInfo);
          imgInfo = (case IntEntry (Dict sd) ''Height'' of
                       Some height \<Rightarrow> imgInfo\<lparr>Height := height\<rparr>
                     | None \<Rightarrow> imgInfo);
          imgInfo = (case NameEntry (Dict sd) ''ColorSpace'' of
                       Some cs \<Rightarrow> imgInfo\<lparr>ColorSpace := cs\<rparr>
                     | None \<Rightarrow>
                         (let csArray = ArrayEntry (Dict sd) ''ColorSpace'' in
                          if length csArray > 0 then
                            (case csArray ! 0 of
                               types_Name csName \<Rightarrow> imgInfo\<lparr>ColorSpace := csName\<rparr>
                             | _ \<Rightarrow> imgInfo)
                          else imgInfo));
          imgInfo = (case IntEntry (Dict sd) ''BitsPerComponent'' of
                       Some bpc \<Rightarrow> imgInfo\<lparr>BitsPerComp := bpc\<rparr>
                     | None \<Rightarrow> imgInfo);
          imgInfo = (if length (FilterPipeline sd) > 0 then
                       imgInfo\<lparr>Filter := strings_Join (map Name_PDFFilter (FilterPipeline sd)) '', ''\<rparr>
                     else imgInfo)
      in imgInfo)"

subsection \<open>extractImagesFromPage\<close>

text \<open>The loop \<^verbatim>\<open>for name, obj := range xObject\<close>. The list \<open>names\<close> holds the keys still to
  visit, in the order the runtime visits them; \<open>images\<close> is the slice built so far. A key
  that is not in the map is passed over (\<open>rangeOrder\<close> rules it out).\<close>

fun rangeXObject ::
  "Context \<Rightarrow> int \<Rightarrow> Dict \<Rightarrow> string list \<Rightarrow> ImageInfo list \<Rightarrow> abort + ImageInfo list" where
  "rangeXObject ctx pageNr xObject [] images = Inr images"
| "rangeXObject ctx pageNr xObject (name # names) images =
     (case fmlookup xObject name of
        Some (types_IndirectRef ir) \<Rightarrow>
          (case DereferenceXObjectDict ctx ir of
             Inl err \<Rightarrow> rangeXObject ctx pageNr xObject names images
           | Inr None \<Rightarrow> Inl NilPointerPanic
           | Inr (Some xObjDict) \<Rightarrow>
               if \<not> Image_StreamDict xObjDict then rangeXObject ctx pageNr xObject names images
               else rangeXObject ctx pageNr xObject names
                      (images @ [extractImageInfo ctx pageNr name ir xObjDict]))
      | _ \<Rightarrow> rangeXObject ctx pageNr xObject names images)"

text \<open>\<open>ord\<close> is the order in which the runtime visits the keys of the XObject dictionary.\<close>

definition extractImagesFromPage ::
  "Context \<Rightarrow> string list \<Rightarrow> int \<Rightarrow> abort + ImageInfo list" where
  "extractImagesFromPage ctx ord pageNr =
     (case PageDict ctx pageNr of
        Inl err \<Rightarrow> Inl (Error (ErrGetPageDict err))
      | Inr pageDict \<Rightarrow>
          (case fmlookup pageDict ''Resources'' of
             None \<Rightarrow> Inr []
           | Some resources \<Rightarrow>
               (case (case resources of
                        types_Dict resDict \<Rightarrow> Some resDict
                      | types_IndirectRef ir \<Rightarrow>
                          (case Dereference ctx ir of
                             Inr (types_Dict resDict) \<Rightarrow> Some resDict
                           | _ \<Rightarrow> None)
                      | _ \<Rightarrow> None) of
                  None \<Rightarrow> Inr []
                | Some resDict \<Rightarrow>
                    (case fmlookup resDict ''XObject'' of
                       None \<Rightarrow> Inr []
                     | Some xObjectDict \<Rightarrow>
                         (case (case xObjectDict of
                                  types_Dict xObject \<Rightarrow> Some xObject
                                | types_IndirectRef ir \<Rightarrow>
                                    (case Dereference ctx ir of
                                       Inr (types_Dict xObject) \<Rightarrow> Some xObject
                                     | _ \<Rightarrow> None)
                                | _ \<Rightarrow> None) of
                            None \<Rightarrow> Inr []
                          | Some xObject \<Rightarrow> rangeXObject ctx pageNr xObject ord [])))))"

subsection \<open>extractAllImages\<close>

text \<open>What the program prints is a list of events, one per print statement (the wording
  and layout of the lines are not modelled); \<^verbatim>\<open>printImageInfo\<close> is one event.\<close>

datatype printed =
    PrintPageCount int
  | PrintDoubleRule
  | PrintPageFound int int
  | PrintSingleRule
  | PrintImageInfo int ImageInfo
  | PrintTotal int

text \<open>\<^verbatim>\<open>for i, img := range images { printImageInfo(i+1, img) }\<close>, from index \<open>i\<close> on.\<close>

fun printImages :: "int \<Rightarrow> ImageInfo list \<Rightarrow> printed list" where
  "printImages i [] = []"
| "printImages i (img # images) = PrintImageInfo (i + 1) img # printImages (i + 1) images"

text \<open>The loop over the pages: \<open>ords pageNr\<close> is the order in which the runtime visits the
  XObject dictionary of page \<open>pageNr\<close>, \<open>out\<close> is what has been printed so far. The result is
  the error or panic that ended the loop, or the total, with what was printed. Go's \<^verbatim>\<open>int\<close>
  is \<open>int\<close> here: the arithmetic of the program is \<^verbatim>\<open>pageNr++\<close>, \<^verbatim>\<open>i+1\<close> and
  \<^verbatim>\<open>totalImages += len(images)\<close>, on counts of pages and of records held in memory, far
  from the bounds of a 64-bit integer.\<close>

function pagesLoop ::
  "Context \<Rightarrow> (int \<Rightarrow> string list) \<Rightarrow> int \<Rightarrow> int \<Rightarrow> int \<Rightarrow> printed list
     \<Rightarrow> (abort + int) \<times> printed list" where
  "pagesLoop ctx ords pageCount pageNr totalImages out =
     (if pageNr \<le> pageCount then
        (case extractImagesFromPage ctx (ords pageNr) pageNr of
           Inl (Error err) \<Rightarrow> (Inl (Error (ErrExtractPage pageNr err)), out)
         | Inl NilPointerPanic \<Rightarrow> (Inl NilPointerPanic, out)
         | Inr images \<Rightarrow>
             if length images > 0 then
               pagesLoop ctx ords pageCount (pageNr + 1) (totalImages + int (length images))
                 (out @ [PrintPageFound pageNr (int (length images)), PrintSingleRule]
                      @ printImages 0 images)
             else pagesLoop ctx ords pageCount (pageNr + 1) totalImages out)
      else (Inr totalImages, out))"
  by pat_completeness auto
termination
  by (relation "measure (\<lambda>(ctx, ords, pageCount, pageNr, totalImages, out).
                  nat (pageCount + 1 - pageNr))") auto

text \<open>The result is the error (or panic) returned, \<open>None\<close> for \<^verbatim>\<open>nil\<close>, with what was printed.\<close>

definition extractAllImages ::
  "Context \<Rightarrow> (int \<Rightarrow> string list) \<Rightarrow> abort option \<times> printed list" where
  "extractAllImages ctx ords =
     (let pageCount = PageCount ctx in
      if pageCount = 0 then (Some (Error ErrNoPages), [])
      else
        (case pagesLoop ctx ords pageCount 1 0 [PrintPageCount pageCount, PrintDoubleRule] of
           (Inl e, out) \<Rightarrow> (Some e, out)
         | (Inr totalImages, out) \<Rightarrow> (None, out @ [PrintDoubleRule, PrintTotal totalImages])))"

section \<open>Notions used to state the properties\<close>

text \<open>The value found under a key, resolved with at most one dereference: a dictionary by
  direct value, or an indirect reference whose single dereference succeeds and yields a
  dictionary. \<open>None\<close> when the key is absent, when the value is neither a dictionary nor a
  reference, and when the dereference fails or yields something else than a dictionary.\<close>

definition resolveDict :: "Context \<Rightarrow> object option \<Rightarrow> Dict option" where
  "resolveDict ctx entry =
     (case entry of
        None \<Rightarrow> None
      | Some (types_Dict d) \<Rightarrow> Some d
      | Some (types_IndirectRef ir) \<Rightarrow>
          (case Dereference ctx ir of
             Inr (types_Dict d) \<Rightarrow> Some d
           | _ \<Rightarrow> None)
      | Some _ \<Rightarrow> None)"

text \<open>The resolved XObject dictionary of a page dictionary: the \<open>XObject\<close> entry, resolved,
  of the resolved \<open>Resources\<close> entry.\<close>

definition resolveXObject :: "Context \<Rightarrow> Dict \<Rightarrow> Dict option" where
  "resolveXObject ctx pageDict =
     (case resolveDict ctx (fmlookup pageDict ''Resources'') of
        None \<Rightarrow> None
      | Some resDict \<Rightarrow> resolveDict ctx (fmlookup resDict ''XObject''))"

text \<open>What a \<^verbatim>\<open>range\<close> statement over a Go map guarantees: every key is visited, once.\<close>

definition rangeOrder :: "Dict \<Rightarrow> string list \<Rightarrow> bool" where
  "rangeOrder d ord \<longleftrightarrow> distinct ord \<and> set ord = fmdom' d"

text \<open>The entry \<open>name\<close> of an XObject dictionary is an image entry when its value is an
  indirect reference, \<open>DereferenceXObjectDict\<close> returns a stream dictionary for it without an
  error, and that stream dictionary passes \<open>Image_StreamDict\<close>. The result is the reference and the
  stream dictionary.\<close>

definition imageEntry :: "Context \<Rightarrow> Dict \<Rightarrow> string \<Rightarrow> (IndirectRef \<times> StreamDict) option" where
  "imageEntry ctx xObject name =
     (case fmlookup xObject name of
        Some (types_IndirectRef ir) \<Rightarrow>
          (case DereferenceXObjectDict ctx ir of
             Inr (Some sd) \<Rightarrow> if Image_StreamDict sd then Some (ir, sd) else None
           | _ \<Rightarrow> None)
      | _ \<Rightarrow> None)"

text \<open>The entry \<open>name\<close> is a nil entry when its value is an indirect reference for which
  \<open>DereferenceXObjectDict\<close> returns a nil pointer and no error.\<close>

definition nilEntry :: "Context \<Rightarrow> Dict \<Rightarrow> string \<Rightarrow> bool" where
  "nilEntry ctx xObject name =
     (case fmlookup xObject name of
        Some (types_IndirectRef ir) \<Rightarrow> DereferenceXObjectDict ctx ir = Inr None
      | _ \<Rightarrow> False)"

text \<open>The record of an image entry.\<close>

definition recordOf :: "Context \<Rightarrow> int \<Rightarrow> Dict \<Rightarrow> string \<Rightarrow> ImageInfo option" where
  "recordOf ctx pageNr xObject name =
     map_option (\<lambda>(ir, sd). extractImageInfo ctx pageNr name ir sd) (imageEntry ctx xObject name)"

text \<open>What the loop over the pages prints for a page with the records \<open>images\<close>.\<close>

definition pageOutput :: "int \<Rightarrow> ImageInfo list \<Rightarrow> printed list" where
  "pageOutput pageNr images =
     (if length images > 0 then
        [PrintPageFound pageNr (int (length images)), PrintSingleRule] @ printImages 0 images
      else [])"

text \<open>The records and the totals among the printed events.\<close>

fun recordsOf :: "printed list \<Rightarrow> ImageInfo list" where
  "recordsOf [] = []"
| "recordsOf (PrintImageInfo i img # out) = img # recordsOf out"
| "recordsOf (_ # out) = recordsOf out"

fun totalsOf :: "printed list \<Rightarrow> int list" where
  "totalsOf [] = []"
| "totalsOf (PrintTotal n # out) = n # totalsOf out"
| "totalsOf (_ # out) = totalsOf out"

text \<open>The orders \<open>ords\<close> are range orders for the pages of a document when, for every page
  number the scan visits, \<open>ords pageNr\<close> is a range order of that page's resolved XObject
  dictionary.\<close>

definition rangeOrders :: "Context \<Rightarrow> (int \<Rightarrow> string list) \<Rightarrow> bool" where
  "rangeOrders ctx ords \<longleftrightarrow>
     (\<forall>pageNr \<in> {1..PageCount ctx}.
        case PageDict ctx pageNr of
          Inl err \<Rightarrow> True
        | Inr pageDict \<Rightarrow>
            (case resolveXObject ctx pageDict of
               None \<Rightarrow> True
             | Some xObject \<Rightarrow> rangeOrder xObject (ords pageNr)))"

text \<open>The records of page \<open>pageNr\<close>: what \<open>extractImagesFromPage\<close> returns for it, and no
  record when the page ends with an error or a panic.\<close>

definition pageImages :: "Context \<Rightarrow> (int \<Rightarrow> string list) \<Rightarrow> int \<Rightarrow> ImageInfo list" where
  "pageImages ctx ords pageNr =
     (case extractImagesFromPage ctx (ords pageNr) pageNr of
        Inl a \<Rightarrow> []
      | Inr images \<Rightarrow> images)"

text \<open>What a page run yields when the order of the records is left out: the records as a
  multiset, or what ended the run.\<close>

fun unordered :: "abort + ImageInfo list \<Rightarrow> abort + ImageInfo multiset" where
  "unordered (Inl a) = Inl a"
| "unordered (Inr images) = Inr (mset images)"

text \<open>How the loop over the pages passes on what ended a page: an error is wrapped with
  the page number, a panic is not caught.\<close>

fun pageAbort :: "int \<Rightarrow> abort \<Rightarrow> abort" where
  "pageAbort pageNr (Error err) = Error (ErrExtractPage pageNr err)"
| "pageAbort pageNr NilPointerPanic = NilPointerPanic"

section \<open>An example document\<close>

text \<open>A document of three pages. Page 1 has a direct Resources dictionary whose XObject
  entry is a reference (object 21) to a dictionary with two images (\<open>Im1\<close>, object 10, and
  \<open>Im2\<close>, object 12), a form (\<open>Fm1\<close>, object 11), an entry whose dereference fails
  (\<open>Im9\<close>, object 99) and an entry by direct value (\<open>Bad\<close>). Page 2 has no Resources
  entry. Page 3 has Resources by reference (object 20) with a direct XObject dictionary
  holding one image (\<open>Im2\<close>, object 12). \<open>exOrds\<close> and \<open>exOrds'\<close> are two orders in which the
  runtime may visit the XObject dictionaries. \<open>exBare\<close> is an image stream with no entry at
  all, \<open>exPageNoDict\<close> a page dictionary whose XObject entry is a reference (object 99)
  that does not lead to a dictionary.\<close>

definition ref :: "int \<Rightarrow> IndirectRef" where
  "ref n = \<lparr>ObjectNumber = n, GenerationNumber = 0\<rparr>"

definition exStream1 :: StreamDict where
  "exStream1 =
     \<lparr>Dict = fmupd ''Width'' (types_Integer 640) (fmupd ''Height'' (types_Integer 480)
               (fmupd ''ColorSpace'' (types_Name ''DeviceRGB'')
               (fmupd ''BitsPerComponent'' (types_Integer 8) fmempty))),
      Raw = [0xFF, 0xD8, 0xFF],
      FilterPipeline = [\<lparr>Name_PDFFilter = ''DCTDecode'', DecodeParms = fmempty\<rparr>],
      Image_StreamDict = True\<rparr>"

definition exStream2 :: StreamDict where
  "exStream2 =
     \<lparr>Dict = fmupd ''ColorSpace''
               (types_Array [types_Name ''Indexed'', types_Name ''DeviceRGB'',
                             types_Integer 255, types_IndirectRef (ref 30)])
               fmempty,
      Raw = [],
      FilterPipeline = [\<lparr>Name_PDFFilter = ''ASCII85Decode'', DecodeParms = fmempty\<rparr>,
                        \<lparr>Name_PDFFilter = ''DCTDecode'', DecodeParms = fmempty\<rparr>],
      Image_StreamDict = True\<rparr>"

definition exForm :: StreamDict where
  "exForm = \<lparr>Dict = fmempty, Raw = [0x71], FilterPipeline = [], Image_StreamDict = False\<rparr>"

definition exXObject1 :: Dict where
  "exXObject1 =
     fmupd ''Im1'' (types_IndirectRef (ref 10)) (fmupd ''Fm1'' (types_IndirectRef (ref 11))
       (fmupd ''Im9'' (types_IndirectRef (ref 99)) (fmupd ''Bad'' (types_Integer 7)
       (fmupd ''Im2'' (types_IndirectRef (ref 12)) fmempty))))"

definition exXObject3 :: Dict where
  "exXObject3 = fmupd ''Im2'' (types_IndirectRef (ref 12)) fmempty"

definition exPage1 :: Dict where
  "exPage1 =
     fmupd ''Resources''
       (types_Dict (fmupd ''XObject'' (types_IndirectRef (ref 21)) fmempty)) fmempty"

definition exPage3 :: Dict where
  "exPage3 = fmupd ''Resources'' (types_IndirectRef (ref 20)) fmempty"

definition exPageDict :: "int \<Rightarrow> error + Dict" where
  "exPageDict pageNr =
     (if pageNr = 1 then Inr exPage1
      else if pageNr = 2 then Inr fmempty
      else if pageNr = 3 then Inr exPage3
      else Inl (ErrLibrary ''pdfcpu: page not found''))"

definition exPageNoDict :: Dict where
  "exPageNoDict =
     fmupd ''Resources''
       (types_Dict (fmupd ''XObject'' (types_IndirectRef (ref 99)) fmempty)) fmempty"

definition exDereference :: "IndirectRef \<Rightarrow> error + object" where
  "exDereference ir =
     (if ObjectNumber ir = 20 then Inr (types_Dict (fmupd ''XObject'' (types_Dict exXObject3) fmempty))
      else if ObjectNumber ir = 21 then Inr (types_Dict exXObject1)
      else Inr types_Nil)"

definition exDereferenceXObjectDict :: "IndirectRef \<Rightarrow> error + StreamDict option" where
  "exDereferenceXObjectDict ir =
     (if ObjectNumber ir = 10 then Inr (Some exStream1)
      else if ObjectNumber ir = 11 then Inr (Some exForm)
      else if ObjectNumber ir = 12 then Inr (Some exStream2)
      else Inl (ErrLibrary ''pdfcpu: DereferenceStreamDict: wrong type''))"

definition exCtx :: Context where
  "exCtx = \<lparr>PageCount = 3, PageDict = exPageDict, Dereference = exDereference,
            DereferenceXObjectDict = exDereferenceXObjectDict\<rparr>"

definition exOrds :: "int \<Rightarrow> string list" where
  "exOrds pageNr =
     (if pageNr = 1 then [''Fm1'', ''Im2'', ''Bad'', ''Im1'', ''Im9'']
      else if pageNr = 3 then [''Im2'']
      else [])"

definition exOrds' :: "int \<Rightarrow> string list" where
  "exOrds' pageNr =
     (if pageNr = 1 then [''Im9'', ''Im1'', ''Bad'', ''Im2'', ''Fm1'']
      else if pageNr = 3 then [''Im2'']
      else [])"

definition exBare :: StreamDict where
  "exBare = \<lparr>Dict = fmempty, Raw = [], FilterPipeline = [], Image_StreamDict = True\<rparr>"

text \<open>The records of the three images of the example.\<close>

definition exRecord1 :: ImageInfo where
  "exRecord1 =
     \<lparr>PageNr = 1, ObjectNr = 10, GenNr = 0, Name = ''Im1'', Width = 640, Height = 480,
      ColorSpace = ''DeviceRGB'', BitsPerComp = 8, Filter = ''DCTDecode'', Size = 3\<rparr>"

definition exRecord2 :: ImageInfo where
  "exRecord2 =
     \<lparr>PageNr = 1, ObjectNr = 12, GenNr = 0, Name = ''Im2'', Width = 0, Height = 0,
      ColorSpace = ''Indexed'', BitsPerComp = 0, Filter = ''ASCII85Decode, DCTDecode'', Size = 0\<rparr>"

definition exRecord3 :: ImageInfo where
  "exRecord3 = exRecord2\<lparr>PageNr := 3\<rparr>"

text \<open>The example document when the library answers the dangling reference of \<open>Im9\<close>
  (object 99, an undefined object) with a nil stream dictionary and no error.\<close>

definition exCtxNil :: Context where
  "exCtxNil =
     exCtx\<lparr>DereferenceXObjectDict :=
             \<lambda>ir. if ObjectNumber ir = 99 then Inr None else exDereferenceXObjectDict ir\<rparr>"

text \<open>The library call \<^verbatim>\<open>PageDict\<close> over the page dictionaries stored in a document
  (\<open>pages\<close>): while it walks the page tree, the library resolves the \<open>Resources\<close> entry of
  the page as a dictionary and returns the error of that resolution. A value that is not a
  dictionary, by direct value or behind a reference, is the error
  "dereferenceDict: wrong type"; a page number without a page is "page not found".\<close>

definition pdfcpu_PageDict ::
  "(int \<Rightarrow> Dict option) \<Rightarrow> (IndirectRef \<Rightarrow> error + object) \<Rightarrow> int \<Rightarrow> error + Dict" where
  "pdfcpu_PageDict pages deref pageNr =
     (case pages pageNr of
        None \<Rightarrow> Inl (ErrLibrary ''pdfcpu: page not found'')
      | Some pageDict \<Rightarrow>
          (case fmlookup pageDict ''Resources'' of
             None \<Rightarrow> Inr pageDict
           | Some resources \<Rightarrow>
               (case (case resources of
                        types_IndirectRef ir \<Rightarrow> deref ir
                      | v \<Rightarrow> Inr v) of
                  Inl err \<Rightarrow> Inl err
                | Inr types_Nil \<Rightarrow> Inr pageDict
                | Inr (types_Dict d) \<Rightarrow> Inr pageDict
                | Inr _ \<Rightarrow> Inl (ErrLibrary ''pdfcpu: dereferenceDict: wrong type''))))"

text \<open>A document of two pages whose \<open>Resources\<close> entries are not dictionaries: the integer 7
  by direct value on page 1, and a reference (object 30) to the integer 7 on page 2.\<close>

definition exWrongPage1 :: Dict where
  "exWrongPage1 = fmupd ''Resources'' (types_Integer 7) fmempty"

definition exWrongPage2 :: Dict where
  "exWrongPage2 = fmupd ''Resources'' (types_IndirectRef (ref 30)) fmempty"

definition exWrongPages :: "int \<Rightarrow> Dict option" where
  "exWrongPages pageNr =
     (if pageNr = 1 then Some exWrongPage1
      else if pageNr = 2 then Some exWrongPage2
      else None)"

definition exWrongDereference :: "IndirectRef \<Rightarrow> error + object" where
  "exWrongDereference ir =
     (if ObjectNumber ir = 30 then Inr (types_Integer 7) else Inr types_Nil)"

definition exCtxWrong :: Context where
  "exCtxWrong =
     \<lparr>PageCount = 2,
      PageDict = pdfcpu_PageDict exWrongPages exWrongDereference,
      Dereference = exWrongDereference,
      DereferenceXObjectDict = exDereferenceXObjectDict\<rparr>"

section \<open>Properties of the extraction of one record\<close>

lemma extractImageInfo_identity:
  "PageNr (extractImageInfo ctx pageNr name ir sd) = pageNr"
  "ObjectNr (extractImageInfo ctx pageNr name ir sd) = ObjectNumber ir"
  "GenNr (extractImageInfo ctx pageNr name ir sd) = GenerationNumber ir"
  "Name (extractImageInfo ctx pageNr name ir sd) = name"
  "Size (extractImageInfo ctx pageNr name ir sd) = int (length (Raw sd))"
  by (simp_all add: extractImageInfo_def Let_def split: option.split object.split)

lemma extractImageInfo_ints:
  "Width (extractImageInfo ctx pageNr name ir sd) =
     (case IntEntry (Dict sd) ''Width'' of Some w \<Rightarrow> w | None \<Rightarrow> 0)"
  "Height (extractImageInfo ctx pageNr name ir sd) =
     (case IntEntry (Dict sd) ''Height'' of Some h \<Rightarrow> h | None \<Rightarrow> 0)"
  "BitsPerComp (extractImageInfo ctx pageNr name ir sd) =
     (case IntEntry (Dict sd) ''BitsPerComponent'' of Some b \<Rightarrow> b | None \<Rightarrow> 0)"
  by (simp_all add: extractImageInfo_def Let_def split: option.split object.split)

lemma strings_Join_Cons: "strings_Join (s # ss) sep = s @ concat (map ((@) sep) ss)"
  by (induction ss arbitrary: s) simp_all

lemma extractImageInfo_ColorSpace:
  "ColorSpace (extractImageInfo ctx pageNr name ir sd) =
     (case NameEntry (Dict sd) ''ColorSpace'' of
        Some cs \<Rightarrow> cs
      | None \<Rightarrow>
          (case ArrayEntry (Dict sd) ''ColorSpace'' of
             types_Name csName # rest \<Rightarrow> csName
           | _ \<Rightarrow> []))"
  by (simp add: extractImageInfo_def Let_def split: option.split object.split list.split)

lemma extractImageInfo_Filter:
  "Filter (extractImageInfo ctx pageNr name ir sd) =
     strings_Join (map Name_PDFFilter (FilterPipeline sd)) '', ''"
  by (simp add: extractImageInfo_def Let_def split: option.split object.split)

section \<open>Properties of the scan of one page\<close>

text \<open>One turn of the loop over the XObject entries: a nil entry ends the run with a panic, an
  image entry appends its record, any other entry is passed over.\<close>

lemma rangeXObject_step:
  "rangeXObject ctx pageNr xObject (name # names) images =
     (if nilEntry ctx xObject name then Inl NilPointerPanic
      else case recordOf ctx pageNr xObject name of
             None \<Rightarrow> rangeXObject ctx pageNr xObject names images
           | Some img \<Rightarrow> rangeXObject ctx pageNr xObject names (images @ [img]))"
  by (simp add: nilEntry_def recordOf_def imageEntry_def
      split: option.split object.split sum.split)

text \<open>The loop in closed form.\<close>

lemma rangeXObject_eq:
  "rangeXObject ctx pageNr xObject names images =
     (if list_ex (nilEntry ctx xObject) names then Inl NilPointerPanic
      else Inr (images @ List.map_filter (recordOf ctx pageNr xObject) names))"
proof (induction names arbitrary: images)
  case Nil
  show ?case by (simp add: List.map_filter_simps)
next
  case (Cons name names)
  show ?case
    unfolding rangeXObject_step
    by (simp add: Cons.IH List.map_filter_simps split: option.split)
qed

text \<open>The page scan is the loop over the resolved XObject dictionary of the page, when there
  is one.\<close>

lemma extractImagesFromPage_eq:
  "extractImagesFromPage ctx ord pageNr =
     (case PageDict ctx pageNr of
        Inl err \<Rightarrow> Inl (Error (ErrGetPageDict err))
      | Inr pageDict \<Rightarrow>
          (case resolveXObject ctx pageDict of
             None \<Rightarrow> Inr []
           | Some xObject \<Rightarrow> rangeXObject ctx pageNr xObject ord []))"
  by (simp add: extractImagesFromPage_def resolveXObject_def resolveDict_def
      split: sum.split option.split object.split)

lemma resolveDict_None_iff:
  "resolveDict ctx entry = None \<longleftrightarrow>
     entry = None \<or>
     (\<exists>v. entry = Some v \<and> (\<forall>d. v \<noteq> types_Dict d) \<and> (\<forall>ir. v \<noteq> types_IndirectRef ir)) \<or>
     (\<exists>ir. entry = Some (types_IndirectRef ir) \<and>
        ((\<exists>err. Dereference ctx ir = Inl err) \<or>
         (\<exists>w. Dereference ctx ir = Inr w \<and> (\<forall>d. w \<noteq> types_Dict d))))"
  by (auto simp: resolveDict_def split: option.splits object.splits sum.splits)

lemma resolveDict_Some_iff:
  "resolveDict ctx entry = Some d \<longleftrightarrow>
     entry = Some (types_Dict d) \<or>
     (\<exists>ir. entry = Some (types_IndirectRef ir) \<and> Dereference ctx ir = Inr (types_Dict d))"
  by (auto simp: resolveDict_def split: option.splits object.splits sum.splits)

lemma imageEntry_Some:
  "imageEntry ctx xObject name = Some (ir, sd) \<longleftrightarrow>
     fmlookup xObject name = Some (types_IndirectRef ir) \<and>
     DereferenceXObjectDict ctx ir = Inr (Some sd) \<and> Image_StreamDict sd"
  by (auto simp: imageEntry_def split: option.splits object.splits sum.splits)

lemma imageEntry_dom: "imageEntry ctx xObject name \<noteq> None \<Longrightarrow> name \<in> fmdom' xObject"
  by (auto simp: imageEntry_def fmdom'I split: option.splits)

lemma recordOf_Some:
  assumes "recordOf ctx pageNr xObject name = Some img"
  shows "\<exists>ir sd. imageEntry ctx xObject name = Some (ir, sd) \<and>
           img = extractImageInfo ctx pageNr name ir sd"
  using assms by (auto simp: recordOf_def)

lemma recordOf_None: "recordOf ctx pageNr xObject name = None \<longleftrightarrow> imageEntry ctx xObject name = None"
  by (simp add: recordOf_def)

lemma Name_recordOf: "recordOf ctx pageNr xObject name = Some img \<Longrightarrow> Name img = name"
  by (auto dest: recordOf_Some simp: extractImageInfo_identity)

lemma names_map_filter_recordOf:
  "map Name (List.map_filter (recordOf ctx pageNr xObject) names) =
     filter (\<lambda>name. imageEntry ctx xObject name \<noteq> None) names"
proof (induction names)
  case Nil
  show ?case by (simp add: List.map_filter_simps)
next
  case (Cons name names)
  show ?case
  proof (cases "recordOf ctx pageNr xObject name")
    case None
    moreover from None have "imageEntry ctx xObject name = None" by (simp add: recordOf_None)
    ultimately show ?thesis using Cons.IH by (simp add: List.map_filter_simps)
  next
    case (Some img)
    then have "imageEntry ctx xObject name \<noteq> None" "Name img = name"
      by (auto simp: recordOf_def extractImageInfo_identity)
    then show ?thesis using Cons.IH Some by (simp add: List.map_filter_simps)
  qed
qed

lemma set_map_filter_recordOf:
  "set (List.map_filter f names) = {img. \<exists>name \<in> set names. f name = Some img}"
  by (induction names) (auto simp: List.map_filter_simps split: option.splits)

lemma mset_map_filter:
  "mset xs = mset ys \<Longrightarrow> mset (List.map_filter f xs) = mset (List.map_filter f ys)"
proof -
  assume h: "mset xs = mset ys"
  have "\<And>zs. mset (List.map_filter f zs) = image_mset (the \<circ> f) (filter_mset (\<lambda>x. f x \<noteq> None) (mset zs))"
    by (simp add: List.map_filter_def)
  then show ?thesis using h by simp
qed

lemma rangeOrder_mset: "rangeOrder d ord1 \<Longrightarrow> rangeOrder d ord2 \<Longrightarrow> mset ord1 = mset ord2"
  by (simp add: rangeOrder_def set_eq_iff_mset_eq_distinct [symmetric])

lemma page_run_records:
  assumes "extractImagesFromPage ctx ord pageNr = Inr images" and "img \<in> set images"
  shows "\<exists>pageDict xObject name ir sd.
           PageDict ctx pageNr = Inr pageDict \<and> resolveXObject ctx pageDict = Some xObject \<and>
           name \<in> set ord \<and> imageEntry ctx xObject name = Some (ir, sd) \<and>
           img = extractImageInfo ctx pageNr name ir sd"
proof -
  from assms obtain pageDict where pd: "PageDict ctx pageNr = Inr pageDict"
    by (auto simp: extractImagesFromPage_eq split: sum.splits)
  from assms pd obtain xObject where xo: "resolveXObject ctx pageDict = Some xObject"
    by (auto simp: extractImagesFromPage_eq split: option.splits)
  from assms pd xo have "images = List.map_filter (recordOf ctx pageNr xObject) ord"
    by (simp add: extractImagesFromPage_eq rangeXObject_eq split: if_splits)
  with assms(2) obtain name where "name \<in> set ord" "recordOf ctx pageNr xObject name = Some img"
    by (auto simp: set_map_filter_recordOf)
  with pd xo show ?thesis by (auto dest: recordOf_Some)
qed

text \<open>A page whose XObject dictionary has a nil entry ends with a panic, in whatever order the
  entries are visited.\<close>

lemma page_with_nil_entry_panics:
  assumes "PageDict ctx pageNr = Inr pageDict" and "resolveXObject ctx pageDict = Some xObject"
    and "rangeOrder xObject ord" and "nilEntry ctx xObject name"
  shows "extractImagesFromPage ctx ord pageNr = Inl NilPointerPanic"
proof -
  from assms(4) have "name \<in> fmdom' xObject"
    by (auto simp: nilEntry_def fmdom'I split: option.splits)
  with assms(3) have "name \<in> set ord" by (simp add: rangeOrder_def)
  with assms(4) have "list_ex (nilEntry ctx xObject) ord" by (auto simp: list_ex_iff)
  with assms(1,2) show ?thesis by (simp add: extractImagesFromPage_eq rangeXObject_eq)
qed

text \<open>The page scan does not read the page count.\<close>

lemma extractImagesFromPage_PageCount:
  "extractImagesFromPage (ctx\<lparr>PageCount := n\<rparr>) ord pageNr = extractImagesFromPage ctx ord pageNr"
proof -
  have a: "nilEntry (ctx\<lparr>PageCount := n\<rparr>) = nilEntry ctx"
    by (intro ext) (simp add: nilEntry_def cong: option.case_cong object.case_cong)
  have b: "recordOf (ctx\<lparr>PageCount := n\<rparr>) = recordOf ctx"
    by (intro ext)
       (simp add: recordOf_def imageEntry_def extractImageInfo_def
          cong: option.case_cong object.case_cong)
  have "resolveDict (ctx\<lparr>PageCount := n\<rparr>) = resolveDict ctx"
    by (intro ext) (simp add: resolveDict_def cong: option.case_cong object.case_cong)
  then have c: "resolveXObject (ctx\<lparr>PageCount := n\<rparr>) = resolveXObject ctx"
    by (intro ext) (simp add: resolveXObject_def cong: option.case_cong)
  have d: "PageDict (ctx\<lparr>PageCount := n\<rparr>) = PageDict ctx"
    by simp
  show ?thesis
    unfolding extractImagesFromPage_eq rangeXObject_eq a b c d by (rule refl)
qed

text \<open>Two range orders of the same dictionary give the same records, up to their order, or
  the same panic.\<close>

lemma rangeXObject_order_independent:
  assumes "rangeOrder xObject ord1" and "rangeOrder xObject ord2"
  shows "unordered (rangeXObject ctx pageNr xObject ord1 []) =
         unordered (rangeXObject ctx pageNr xObject ord2 [])"
proof -
  from assms have "set ord1 = set ord2" by (simp add: rangeOrder_def)
  then have "list_ex (nilEntry ctx xObject) ord1 = list_ex (nilEntry ctx xObject) ord2"
    by (simp add: list_ex_iff)
  moreover have "mset (List.map_filter (recordOf ctx pageNr xObject) ord1) =
                 mset (List.map_filter (recordOf ctx pageNr xObject) ord2)"
    by (rule mset_map_filter) (rule rangeOrder_mset [OF assms])
  ultimately show ?thesis by (simp add: rangeXObject_eq)
qed

lemma rangeOrdersD:
  assumes "rangeOrders ctx ords" and "m \<in> {1..PageCount ctx}"
    and "PageDict ctx m = Inr pageDict" and "resolveXObject ctx pageDict = Some xObject"
  shows "rangeOrder xObject (ords m)"
proof -
  from assms(1) have "\<forall>pageNr \<in> {1..PageCount ctx}.
        case PageDict ctx pageNr of
          Inl err \<Rightarrow> True
        | Inr pageDict \<Rightarrow>
            (case resolveXObject ctx pageDict of
               None \<Rightarrow> True
             | Some xObject \<Rightarrow> rangeOrder xObject (ords pageNr))"
    by (simp only: rangeOrders_def)
  from bspec [OF this assms(2)] assms(3,4) show ?thesis by simp
qed

lemma rangeOrders_page:
  assumes "rangeOrders ctx ords" and "rangeOrders ctx ords'" and "m \<in> {1..PageCount ctx}"
  shows "unordered (extractImagesFromPage ctx (ords m) m) =
         unordered (extractImagesFromPage ctx (ords' m) m)"
proof (cases "PageDict ctx m")
  case (Inl err)
  then show ?thesis by (simp add: extractImagesFromPage_eq)
next
  case (Inr pageDict)
  show ?thesis
  proof (cases "resolveXObject ctx pageDict")
    case None
    with Inr show ?thesis by (simp add: extractImagesFromPage_eq)
  next
    case (Some xObject)
    have "rangeOrder xObject (ords m)" "rangeOrder xObject (ords' m)"
      by (rule rangeOrdersD [OF assms(1) assms(3) Inr Some])
         (rule rangeOrdersD [OF assms(2) assms(3) Inr Some])
    then have "unordered (rangeXObject ctx m xObject (ords m) []) =
               unordered (rangeXObject ctx m xObject (ords' m) [])"
      by (rule rangeXObject_order_independent)
    then show ?thesis
      using Inr Some by (simp add: extractImagesFromPage_eq)
  qed
qed

section \<open>Properties of the loop over the pages\<close>

declare pagesLoop.simps [simp del]

lemma pagesLoop_done:
  "\<not> pageNr \<le> pageCount \<Longrightarrow> pagesLoop ctx ords pageCount pageNr totalImages out = (Inr totalImages, out)"
  by (simp add: pagesLoop.simps)

lemma pagesLoop_abort:
  "pageNr \<le> pageCount \<Longrightarrow> extractImagesFromPage ctx (ords pageNr) pageNr = Inl a \<Longrightarrow>
   pagesLoop ctx ords pageCount pageNr totalImages out = (Inl (pageAbort pageNr a), out)"
  by (cases a) (simp_all add: pagesLoop.simps)

lemma pagesLoop_next:
  "pageNr \<le> pageCount \<Longrightarrow> extractImagesFromPage ctx (ords pageNr) pageNr = Inr images \<Longrightarrow>
   pagesLoop ctx ords pageCount pageNr totalImages out =
     pagesLoop ctx ords pageCount (pageNr + 1) (totalImages + int (length images))
       (out @ pageOutput pageNr images)"
  by (simp add: pagesLoop.simps [of ctx ords pageCount pageNr] pageOutput_def)

lemma pageImages_Inr:
  "extractImagesFromPage ctx (ords pageNr) pageNr = Inr images \<Longrightarrow> pageImages ctx ords pageNr = images"
  by (simp add: pageImages_def)

lemma upto_first: "i \<le> j \<Longrightarrow> [i..j] = i # [i + 1..j]"
  by (simp add: upto_rec1)

lemma sum_first: "i \<le> j \<Longrightarrow> (\<Sum>m = i..j. f m) = f i + (\<Sum>m = i + 1..j. f m)" for i j :: int
proof -
  assume "i \<le> j"
  then have "{i..j} = insert i {i + 1..j}" by auto
  then show ?thesis by simp
qed

text \<open>The loop stops at the first page that ends with an error or a panic: what was printed
  is what the pages before it printed.\<close>

lemma pagesLoop_first_abort:
  assumes "pageNr \<le> k" and "k \<le> pageCount"
    and "\<forall>m \<in> {pageNr..<k}. \<exists>images. extractImagesFromPage ctx (ords m) m = Inr images"
    and "extractImagesFromPage ctx (ords k) k = Inl a"
  shows "pagesLoop ctx ords pageCount pageNr totalImages out =
           (Inl (pageAbort k a),
            out @ concat (map (\<lambda>m. pageOutput m (pageImages ctx ords m)) [pageNr..k - 1]))"
  using assms
proof (induction ctx ords pageCount pageNr totalImages out rule: pagesLoop.induct)
  case (1 ctx ords pageCount pageNr totalImages out)
  show ?case
  proof (cases "pageNr = k")
    case True
    with "1.prems" show ?thesis by (simp add: pagesLoop_abort)
  next
    case False
    with "1.prems" have lt: "pageNr < k" and le: "pageNr \<le> pageCount" by simp_all
    from lt have "pageNr \<in> {pageNr..<k}" by simp
    with "1.prems"(3) obtain images where
      run: "extractImagesFromPage ctx (ords pageNr) pageNr = Inr images" by blast
    have rest: "\<forall>m \<in> {pageNr + 1..<k}. \<exists>images. extractImagesFromPage ctx (ords m) m = Inr images"
      using "1.prems"(3) by simp
    have IH: "pagesLoop ctx ords pageCount (pageNr + 1) (totalImages + int (length images))
                (out @ pageOutput pageNr images) =
              (Inl (pageAbort k a),
               (out @ pageOutput pageNr images) @
                 concat (map (\<lambda>m. pageOutput m (pageImages ctx ords m)) [pageNr + 1..k - 1]))"
    proof (cases "length images > 0")
      case True
      then have po: "pageOutput pageNr images =
          [PrintPageFound pageNr (int (length images)), PrintSingleRule] @ printImages 0 images"
        by (simp add: pageOutput_def)
      from "1.IH"(1) [OF le run True _ "1.prems"(2) rest "1.prems"(4)] lt
      show ?thesis unfolding po by simp
    next
      case False
      then have po: "pageOutput pageNr images = []" "totalImages + int (length images) = totalImages"
        by (simp_all add: pageOutput_def)
      from "1.IH"(2) [OF le run False _ "1.prems"(2) rest "1.prems"(4)] lt
      show ?thesis unfolding po by simp
    qed
    have "[pageNr..k - 1] = pageNr # [pageNr + 1..k - 1]"
      using lt by (simp add: upto_first)
    then show ?thesis
      using IH by (simp add: pagesLoop_next [where ords = ords, OF le run] pageImages_Inr [where ords = ords, OF run])
  qed
qed

text \<open>When every page returns its records, the loop returns the sum of their numbers.\<close>

lemma pagesLoop_all:
  assumes "\<forall>m \<in> {pageNr..pageCount}. \<exists>images. extractImagesFromPage ctx (ords m) m = Inr images"
  shows "pagesLoop ctx ords pageCount pageNr totalImages out =
           (Inr (totalImages + (\<Sum>m = pageNr..pageCount. int (length (pageImages ctx ords m)))),
            out @ concat (map (\<lambda>m. pageOutput m (pageImages ctx ords m)) [pageNr..pageCount]))"
  using assms
proof (induction ctx ords pageCount pageNr totalImages out rule: pagesLoop.induct)
  case (1 ctx ords pageCount pageNr totalImages out)
  show ?case
  proof (cases "pageNr \<le> pageCount")
    case False
    then show ?thesis by (simp add: pagesLoop_done)
  next
    case le: True
    then have "pageNr \<in> {pageNr..pageCount}" by simp
    with "1.prems" obtain images where
      run: "extractImagesFromPage ctx (ords pageNr) pageNr = Inr images" by blast
    have rest: "\<forall>m \<in> {pageNr + 1..pageCount}. \<exists>images. extractImagesFromPage ctx (ords m) m = Inr images"
      using "1.prems" by simp
    have IH: "pagesLoop ctx ords pageCount (pageNr + 1) (totalImages + int (length images))
                (out @ pageOutput pageNr images) =
              (Inr (totalImages + int (length images) +
                    (\<Sum>m = pageNr + 1..pageCount. int (length (pageImages ctx ords m)))),
               (out @ pageOutput pageNr images) @
                 concat (map (\<lambda>m. pageOutput m (pageImages ctx ords m)) [pageNr + 1..pageCount]))"
    proof (cases "length images > 0")
      case True
      then have po: "pageOutput pageNr images =
          [PrintPageFound pageNr (int (length images)), PrintSingleRule] @ printImages 0 images"
        by (simp add: pageOutput_def)
      from "1.IH"(1) [OF le run True rest]
      show ?thesis unfolding po by simp
    next
      case False
      then have po: "pageOutput pageNr images = []" "totalImages + int (length images) = totalImages"
        by (simp_all add: pageOutput_def)
      from "1.IH"(2) [OF le run False rest]
      show ?thesis unfolding po by simp
    qed
    show ?thesis
      using IH
      by (simp add: pagesLoop_next [where ords = ords, OF le run] pageImages_Inr [where ords = ords, OF run] upto_first [OF le]
          sum_first [OF le])
  qed
qed

text \<open>The loop returns a total only when every page has returned its records.\<close>

lemma pagesLoop_Inr_all:
  assumes "fst (pagesLoop ctx ords pageCount pageNr totalImages out) = Inr t"
  shows "\<forall>m \<in> {pageNr..pageCount}. \<exists>images. extractImagesFromPage ctx (ords m) m = Inr images"
  using assms
proof (induction ctx ords pageCount pageNr totalImages out rule: pagesLoop.induct)
  case (1 ctx ords pageCount pageNr totalImages out)
  show ?case
  proof (cases "pageNr \<le> pageCount")
    case False
    then show ?thesis by simp
  next
    case le: True
    show ?thesis
    proof (cases "extractImagesFromPage ctx (ords pageNr) pageNr")
      case (Inl a)
      with "1.prems" le show ?thesis by (simp add: pagesLoop_abort)
    next
      case (Inr images)
      have next_run: "fst (pagesLoop ctx ords pageCount (pageNr + 1) (totalImages + int (length images))
                (out @ pageOutput pageNr images)) = Inr t"
        using "1.prems" by (simp add: pagesLoop_next [where ords = ords, OF le Inr])
      have rest: "\<forall>m \<in> {pageNr + 1..pageCount}. \<exists>images. extractImagesFromPage ctx (ords m) m = Inr images"
      proof (cases "length images > 0")
        case True
        then have po: "pageOutput pageNr images =
            [PrintPageFound pageNr (int (length images)), PrintSingleRule] @ printImages 0 images"
          by (simp add: pageOutput_def)
        show ?thesis
          by (rule "1.IH"(1) [OF le Inr True]) (use next_run in \<open>simp add: po\<close>)
      next
        case False
        then have po: "pageOutput pageNr images = []" "totalImages + int (length images) = totalImages"
          by (simp_all add: pageOutput_def)
        show ?thesis
          by (rule "1.IH"(2) [OF le Inr False]) (use next_run in \<open>simp add: po\<close>)
      qed
      show ?thesis
      proof
        fix m assume "m \<in> {pageNr..pageCount}"
        then have "m = pageNr \<or> m \<in> {pageNr + 1..pageCount}" by auto
        then show "\<exists>images. extractImagesFromPage ctx (ords m) m = Inr images"
          using Inr rest by auto
      qed
    qed
  qed
qed

lemma recordsOf_append: "recordsOf (xs @ ys) = recordsOf xs @ recordsOf ys"
  by (induction xs rule: recordsOf.induct) simp_all

lemma totalsOf_append: "totalsOf (xs @ ys) = totalsOf xs @ totalsOf ys"
  by (induction xs rule: totalsOf.induct) simp_all

lemma recordsOf_printImages: "recordsOf (printImages i images) = images"
  by (induction images arbitrary: i) simp_all

lemma totalsOf_printImages: "totalsOf (printImages i images) = []"
  by (induction images arbitrary: i) simp_all

lemma recordsOf_pageOutput: "recordsOf (pageOutput pageNr images) = images"
  by (simp add: pageOutput_def recordsOf_printImages)

lemma totalsOf_pageOutput: "totalsOf (pageOutput pageNr images) = []"
  by (simp add: pageOutput_def totalsOf_printImages)

lemma recordsOf_pages:
  "recordsOf (concat (map (\<lambda>m. pageOutput m (f m)) ms)) = concat (map f ms)"
  by (induction ms) (simp_all add: recordsOf_append recordsOf_pageOutput)

lemma totalsOf_pages:
  "totalsOf (concat (map (\<lambda>m. pageOutput m (f m)) ms)) = []"
  by (induction ms) (simp_all add: totalsOf_append totalsOf_pageOutput)

lemma pagesLoop_order_independent:
  assumes "\<forall>m \<in> {pageNr..pageCount}.
             unordered (extractImagesFromPage ctx (ords m) m) =
             unordered (extractImagesFromPage ctx (ords' m) m)"
    and "mset (recordsOf out) = mset (recordsOf out')"
    and "totalsOf out = totalsOf out'"
  shows "fst (pagesLoop ctx ords pageCount pageNr totalImages out) =
           fst (pagesLoop ctx ords' pageCount pageNr totalImages out') \<and>
         mset (recordsOf (snd (pagesLoop ctx ords pageCount pageNr totalImages out))) =
           mset (recordsOf (snd (pagesLoop ctx ords' pageCount pageNr totalImages out'))) \<and>
         totalsOf (snd (pagesLoop ctx ords pageCount pageNr totalImages out)) =
           totalsOf (snd (pagesLoop ctx ords' pageCount pageNr totalImages out'))"
  using assms
proof (induction ctx ords pageCount pageNr totalImages out arbitrary: out' rule: pagesLoop.induct)
  case (1 ctx ords pageCount pageNr totalImages out)
  show ?case
  proof (cases "pageNr \<le> pageCount")
    case False
    then show ?thesis using "1.prems" by (simp add: pagesLoop_done)
  next
    case le: True
    then have "pageNr \<in> {pageNr..pageCount}" by simp
    with "1.prems"(1) have same:
      "unordered (extractImagesFromPage ctx (ords pageNr) pageNr) =
       unordered (extractImagesFromPage ctx (ords' pageNr) pageNr)" by blast
    have rest: "\<forall>m \<in> {pageNr + 1..pageCount}.
             unordered (extractImagesFromPage ctx (ords m) m) =
             unordered (extractImagesFromPage ctx (ords' m) m)"
    proof
      fix m assume "m \<in> {pageNr + 1..pageCount}"
      then have "m \<in> {pageNr..pageCount}" by simp
      with "1.prems"(1) show "unordered (extractImagesFromPage ctx (ords m) m) =
             unordered (extractImagesFromPage ctx (ords' m) m)" by blast
    qed
    show ?thesis
    proof (cases "extractImagesFromPage ctx (ords pageNr) pageNr")
      case (Inl a)
      with same have "extractImagesFromPage ctx (ords' pageNr) pageNr = Inl a"
        by (cases "extractImagesFromPage ctx (ords' pageNr) pageNr") simp_all
      with Inl le "1.prems" show ?thesis
        by (simp add: pagesLoop_abort [where ords = ords] pagesLoop_abort [where ords = ords'])
    next
      case (Inr images)
      with same obtain images' where
        run': "extractImagesFromPage ctx (ords' pageNr) pageNr = Inr images'" and
        ms: "mset images = mset images'"
        by (cases "extractImagesFromPage ctx (ords' pageNr) pageNr") simp_all
      from ms have len: "length images' = length images" by (rule mset_eq_length [symmetric])
      have out: "mset (recordsOf (out @ pageOutput pageNr images)) =
                 mset (recordsOf (out' @ pageOutput pageNr images'))"
               "totalsOf (out @ pageOutput pageNr images) = totalsOf (out' @ pageOutput pageNr images')"
        using "1.prems"(2,3) ms
        by (simp_all add: recordsOf_append totalsOf_append recordsOf_pageOutput totalsOf_pageOutput)
      let ?L = "\<lambda>ords out. pagesLoop ctx ords pageCount (pageNr + 1)
                  (totalImages + int (length images)) out"
      have IH: "fst (?L ords (out @ pageOutput pageNr images)) =
                  fst (?L ords' (out' @ pageOutput pageNr images')) \<and>
                mset (recordsOf (snd (?L ords (out @ pageOutput pageNr images)))) =
                  mset (recordsOf (snd (?L ords' (out' @ pageOutput pageNr images')))) \<and>
                totalsOf (snd (?L ords (out @ pageOutput pageNr images))) =
                  totalsOf (snd (?L ords' (out' @ pageOutput pageNr images')))"
      proof (cases "length images > 0")
        case True
        then have po: "pageOutput pageNr images =
            [PrintPageFound pageNr (int (length images)), PrintSingleRule] @ printImages 0 images"
          by (simp add: pageOutput_def)
        show ?thesis
          unfolding po by (rule "1.IH"(1) [OF le Inr True rest out [unfolded po]])
      next
        case False
        then have po: "pageOutput pageNr images = []"
          "totalImages + int (length images) = totalImages"
          by (simp_all add: pageOutput_def)
        have out0: "mset (recordsOf out) = mset (recordsOf (out' @ pageOutput pageNr images'))"
          "totalsOf out = totalsOf (out' @ pageOutput pageNr images')"
          using out unfolding po by simp_all
        show ?thesis
          unfolding po append_Nil2 by (rule "1.IH"(2) [OF le Inr False rest out0])
      qed
      show ?thesis
        unfolding pagesLoop_next [where ords = ords, OF le Inr]
          pagesLoop_next [where ords = ords', OF le run'] len
        by (rule IH)
    qed
  qed
qed

lemma extractAllImages_fst_snd:
  "fst (extractAllImages ctx ords) =
     (if PageCount ctx = 0 then Some (Error ErrNoPages)
      else case fst (pagesLoop ctx ords (PageCount ctx) 1 0
                       [PrintPageCount (PageCount ctx), PrintDoubleRule]) of
             Inl e \<Rightarrow> Some e
           | Inr totalImages \<Rightarrow> None)"
  "snd (extractAllImages ctx ords) =
     (if PageCount ctx = 0 then []
      else case fst (pagesLoop ctx ords (PageCount ctx) 1 0
                       [PrintPageCount (PageCount ctx), PrintDoubleRule]) of
             Inl e \<Rightarrow> snd (pagesLoop ctx ords (PageCount ctx) 1 0
                       [PrintPageCount (PageCount ctx), PrintDoubleRule])
           | Inr totalImages \<Rightarrow>
               snd (pagesLoop ctx ords (PageCount ctx) 1 0
                       [PrintPageCount (PageCount ctx), PrintDoubleRule])
                 @ [PrintDoubleRule, PrintTotal totalImages])"
  by (simp_all add: extractAllImages_def Let_def split: prod.split sum.split)

section \<open>The example document, evaluated\<close>

lemma ex_pages:
  "PageDict exCtx 1 = Inr exPage1" "PageDict exCtx 2 = Inr fmempty" "PageDict exCtx 3 = Inr exPage3"
  "PageDict exCtx 4 = Inl (ErrLibrary ''pdfcpu: page not found'')"
  "PageDict (exCtx\<lparr>PageCount := n\<rparr>) = PageDict exCtx"
  by (simp_all add: exCtx_def exPageDict_def)

lemma ex_xobjects:
  "resolveXObject exCtx exPage1 = Some exXObject1"
  "resolveXObject exCtx fmempty = None"
  "resolveXObject exCtx exPage3 = Some exXObject3"
  by (simp_all add: resolveXObject_def resolveDict_def exCtx_def exPage1_def exPage3_def
      exDereference_def ref_def)

lemma ex_orders:
  "rangeOrder exXObject1 (exOrds 1)" "rangeOrder exXObject1 (exOrds' 1)"
  "rangeOrder exXObject3 (exOrds 3)" "rangeOrder exXObject3 (exOrds' 3)"
  by (auto simp add: rangeOrder_def exXObject1_def exXObject3_def exOrds_def exOrds'_def)

lemma ex_no_nil: "\<not> nilEntry exCtx exXObject1 name"
  by (simp add: nilEntry_def exXObject1_def exCtx_def exDereferenceXObjectDict_def ref_def)

lemma ex_records:
  "extractImageInfo ctx 1 ''Im1'' (ref 10) exStream1 = exRecord1"
  "extractImageInfo ctx 1 ''Im2'' (ref 12) exStream2 = exRecord2"
  "extractImageInfo ctx 3 ''Im2'' (ref 12) exStream2 = exRecord3"
  by (simp_all add: extractImageInfo_def exStream1_def exStream2_def exRecord1_def exRecord2_def
      exRecord3_def ref_def IntEntry_def NameEntry_def ArrayEntry_def)

lemma ex_runs:
  "extractImagesFromPage exCtx (exOrds 1) 1 = Inr [exRecord2, exRecord1]"
  "extractImagesFromPage exCtx (exOrds' 1) 1 = Inr [exRecord1, exRecord2]"
  "extractImagesFromPage exCtx (exOrds 2) 2 = Inr []"
  "extractImagesFromPage exCtx (exOrds 3) 3 = Inr [exRecord3]"
  "extractImagesFromPage exCtx (exOrds' 3) 3 = Inr [exRecord3]"
proof -
  have d: "DereferenceXObjectDict exCtx (ref 10) = Inr (Some exStream1)"
    "DereferenceXObjectDict exCtx (ref 11) = Inr (Some exForm)"
    "DereferenceXObjectDict exCtx (ref 12) = Inr (Some exStream2)"
    "DereferenceXObjectDict exCtx (ref 99) = Inl (ErrLibrary ''pdfcpu: DereferenceStreamDict: wrong type'')"
    by (simp_all add: exCtx_def exDereferenceXObjectDict_def ref_def)
  have i: "Image_StreamDict exStream1" "Image_StreamDict exStream2" "\<not> Image_StreamDict exForm"
    by (simp_all add: exStream1_def exStream2_def exForm_def)
  have l1: "fmlookup exXObject1 ''Im1'' = Some (types_IndirectRef (ref 10))"
    "fmlookup exXObject1 ''Im2'' = Some (types_IndirectRef (ref 12))"
    "fmlookup exXObject1 ''Fm1'' = Some (types_IndirectRef (ref 11))"
    "fmlookup exXObject1 ''Im9'' = Some (types_IndirectRef (ref 99))"
    "fmlookup exXObject1 ''Bad'' = Some (types_Integer 7)"
    "fmlookup exXObject3 ''Im2'' = Some (types_IndirectRef (ref 12))"
    by (simp_all add: exXObject1_def exXObject3_def)
  show "extractImagesFromPage exCtx (exOrds 1) 1 = Inr [exRecord2, exRecord1]"
    by (simp add: extractImagesFromPage_eq ex_pages ex_xobjects exOrds_def d i l1 ex_records)
  show "extractImagesFromPage exCtx (exOrds' 1) 1 = Inr [exRecord1, exRecord2]"
    by (simp add: extractImagesFromPage_eq ex_pages ex_xobjects exOrds'_def d i l1 ex_records)
  show "extractImagesFromPage exCtx (exOrds 2) 2 = Inr []"
    by (simp add: extractImagesFromPage_eq ex_pages ex_xobjects)
  show "extractImagesFromPage exCtx (exOrds 3) 3 = Inr [exRecord3]"
    by (simp add: extractImagesFromPage_eq ex_pages ex_xobjects exOrds_def d i l1 ex_records)
  show "extractImagesFromPage exCtx (exOrds' 3) 3 = Inr [exRecord3]"
    by (simp add: extractImagesFromPage_eq ex_pages ex_xobjects exOrds'_def d i l1 ex_records)
qed

lemma ex_scan:
  "extractAllImages exCtx exOrds =
     (None, [PrintPageCount 3, PrintDoubleRule,
             PrintPageFound 1 2, PrintSingleRule, PrintImageInfo 1 exRecord2, PrintImageInfo 2 exRecord1,
             PrintPageFound 3 1, PrintSingleRule, PrintImageInfo 1 exRecord3,
             PrintDoubleRule, PrintTotal 3])"
  "extractAllImages exCtx exOrds' =
     (None, [PrintPageCount 3, PrintDoubleRule,
             PrintPageFound 1 2, PrintSingleRule, PrintImageInfo 1 exRecord1, PrintImageInfo 2 exRecord2,
             PrintPageFound 3 1, PrintSingleRule, PrintImageInfo 1 exRecord3,
             PrintDoubleRule, PrintTotal 3])"
proof -
  have pc: "PageCount exCtx = 3" by (simp add: exCtx_def)
  have o: "exOrds 2 = exOrds' 2" by (simp add: exOrds_def exOrds'_def)
  show "extractAllImages exCtx exOrds =
     (None, [PrintPageCount 3, PrintDoubleRule,
             PrintPageFound 1 2, PrintSingleRule, PrintImageInfo 1 exRecord2, PrintImageInfo 2 exRecord1,
             PrintPageFound 3 1, PrintSingleRule, PrintImageInfo 1 exRecord3,
             PrintDoubleRule, PrintTotal 3])"
    by (simp add: extractAllImages_def pc pagesLoop.simps ex_runs)
  show "extractAllImages exCtx exOrds' =
     (None, [PrintPageCount 3, PrintDoubleRule,
             PrintPageFound 1 2, PrintSingleRule, PrintImageInfo 1 exRecord1, PrintImageInfo 2 exRecord2,
             PrintPageFound 3 1, PrintSingleRule, PrintImageInfo 1 exRecord3,
             PrintDoubleRule, PrintTotal 3])"
    by (simp add: extractAllImages_def pc pagesLoop.simps ex_runs o [symmetric])
qed

lemma ex_rangeOrders: "rangeOrders exCtx exOrds" "rangeOrders exCtx exOrds'"
proof -
  have pages: "m = 1 \<or> m = 2 \<or> m = 3" if "m \<in> {1..PageCount exCtx}" for m
    using that by (auto simp: exCtx_def)
  show "rangeOrders exCtx exOrds"
    unfolding rangeOrders_def
  proof
    fix m assume "m \<in> {1..PageCount exCtx}"
    from pages [OF this] show "case PageDict exCtx m of Inl err \<Rightarrow> True
          | Inr pageDict \<Rightarrow>
              (case resolveXObject exCtx pageDict of None \<Rightarrow> True
               | Some xObject \<Rightarrow> rangeOrder xObject (exOrds m))"
      by (auto simp: ex_pages ex_xobjects ex_orders)
  qed
  show "rangeOrders exCtx exOrds'"
    unfolding rangeOrders_def
  proof
    fix m assume "m \<in> {1..PageCount exCtx}"
    from pages [OF this] show "case PageDict exCtx m of Inl err \<Rightarrow> True
          | Inr pageDict \<Rightarrow>
              (case resolveXObject exCtx pageDict of None \<Rightarrow> True
               | Some xObject \<Rightarrow> rangeOrder xObject (exOrds' m))"
      by (auto simp: ex_pages ex_xobjects ex_orders)
  qed
qed

section \<open>The claims\<close>

subsection \<open>Records of a page\<close>

text \<open>C1, which the program does not meet on every page: the claim asks for one record per
  image entry of the resolved XObject dictionary, every other entry being skipped. On page 1
  of the example document, \<open>Im1\<close> and \<open>Im2\<close> are image entries and \<open>Im9\<close> is a reference to an
  undefined object. When the library answers that reference with a nil stream dictionary
  and no error, the page scan returns no list of records: it ends with a nil-pointer panic
  at \<^verbatim>\<open>xObjDict.Image()\<close>, in either order of visit, and the whole scan ends with that
  panic after the header. The loop skips an entry when the dereference returns an error and
  misses the nil reply.\<close>

theorem nil_entry_ends_page_scan:
  "PageDict exCtxNil 1 = Inr exPage1 \<and> resolveXObject exCtxNil exPage1 = Some exXObject1 \<and>
   rangeOrder exXObject1 (exOrds 1) \<and> rangeOrder exXObject1 (exOrds' 1) \<and>
   imageEntry exCtxNil exXObject1 ''Im1'' = Some (ref 10, exStream1) \<and>
   imageEntry exCtxNil exXObject1 ''Im2'' = Some (ref 12, exStream2) \<and>
   fmlookup exXObject1 ''Im9'' = Some (types_IndirectRef (ref 99)) \<and>
   DereferenceXObjectDict exCtxNil (ref 99) = Inr None \<and>
   extractImagesFromPage exCtxNil (exOrds 1) 1 = Inl NilPointerPanic \<and>
   extractImagesFromPage exCtxNil (exOrds' 1) 1 = Inl NilPointerPanic \<and>
   extractAllImages exCtxNil exOrds = (Some NilPointerPanic, [PrintPageCount 3, PrintDoubleRule])"
proof -
  have pd: "PageDict exCtxNil 1 = Inr exPage1"
    by (simp add: exCtxNil_def ex_pages)
  have "resolveDict exCtxNil = resolveDict exCtx"
    by (intro ext)
       (simp add: resolveDict_def exCtxNil_def cong: option.case_cong object.case_cong)
  then have "resolveXObject exCtxNil = resolveXObject exCtx"
    by (intro ext) (simp add: resolveXObject_def cong: option.case_cong)
  then have xo: "resolveXObject exCtxNil exPage1 = Some exXObject1"
    using ex_xobjects(1) by simp
  have d: "DereferenceXObjectDict exCtxNil (ref 10) = Inr (Some exStream1)"
    "DereferenceXObjectDict exCtxNil (ref 12) = Inr (Some exStream2)"
    "DereferenceXObjectDict exCtxNil (ref 99) = Inr None"
    by (simp_all add: exCtxNil_def exDereferenceXObjectDict_def ref_def)
  have l: "fmlookup exXObject1 ''Im1'' = Some (types_IndirectRef (ref 10))"
    "fmlookup exXObject1 ''Im2'' = Some (types_IndirectRef (ref 12))"
    "fmlookup exXObject1 ''Im9'' = Some (types_IndirectRef (ref 99))"
    by (simp_all add: exXObject1_def)
  have i: "imageEntry exCtxNil exXObject1 ''Im1'' = Some (ref 10, exStream1)"
    "imageEntry exCtxNil exXObject1 ''Im2'' = Some (ref 12, exStream2)"
    by (simp_all add: imageEntry_def l d exStream1_def exStream2_def)
  have n: "nilEntry exCtxNil exXObject1 ''Im9''"
    by (simp add: nilEntry_def l d)
  have run: "extractImagesFromPage exCtxNil (exOrds 1) 1 = Inl NilPointerPanic"
    by (rule page_with_nil_entry_panics [OF pd xo ex_orders(1) n])
  have run': "extractImagesFromPage exCtxNil (exOrds' 1) 1 = Inl NilPointerPanic"
    by (rule page_with_nil_entry_panics [OF pd xo ex_orders(2) n])
  have pc: "PageCount exCtxNil = 3"
    by (simp add: exCtxNil_def exCtx_def)
  have scan: "extractAllImages exCtxNil exOrds =
      (Some NilPointerPanic, [PrintPageCount 3, PrintDoubleRule])"
    by (simp add: extractAllImages_def pc pagesLoop.simps [of _ _ _ 1] run)
  from pd xo ex_orders(1,2) i l(3) d(3) run run' scan show ?thesis by simp
qed

text \<open>For every page whose page dictionary is obtained: when the page has no resolved
  XObject dictionary, the page scan returns no record; when it has one, and the runtime
  visits its keys in a range order, and no entry is a nil entry, the page scan returns a
  list of records whose names are pairwise distinct and are exactly the names of the image
  entries of that dictionary. So, on such a page, there is exactly one record per image
  entry, and the number of records is the number of image entries.\<close>

lemma page_records_are_image_entries:
  assumes "PageDict ctx pageNr = Inr pageDict"
  shows "case resolveXObject ctx pageDict of
           None \<Rightarrow> extractImagesFromPage ctx ord pageNr = Inr []
         | Some xObject \<Rightarrow>
             rangeOrder xObject ord \<and> (\<forall>name. \<not> nilEntry ctx xObject name) \<longrightarrow>
             (\<exists>images. extractImagesFromPage ctx ord pageNr = Inr images \<and>
                distinct (map Name images) \<and>
                set (map Name images) = {name. imageEntry ctx xObject name \<noteq> None} \<and>
                length images = card {name. imageEntry ctx xObject name \<noteq> None})"
proof (cases "resolveXObject ctx pageDict")
  case None
  then show ?thesis using assms by (simp add: extractImagesFromPage_eq)
next
  case (Some xObject)
  let ?P = "\<lambda>name. imageEntry ctx xObject name \<noteq> None"
  let ?images = "List.map_filter (recordOf ctx pageNr xObject) ord"
  {
    assume ord: "rangeOrder xObject ord" and nil: "\<forall>name. \<not> nilEntry ctx xObject name"
    have run: "extractImagesFromPage ctx ord pageNr = Inr ?images"
      using assms Some nil by (simp add: extractImagesFromPage_eq rangeXObject_eq list_ex_iff)
    have names: "map Name ?images = filter ?P ord"
      by (rule names_map_filter_recordOf)
    have d: "distinct (map Name ?images)"
      using ord by (simp add: names rangeOrder_def)
    have s: "set (map Name ?images) = {name. ?P name}"
      using ord imageEntry_dom [of ctx xObject] unfolding names rangeOrder_def by auto
    have "length ?images = length (map Name ?images)" by simp
    also have "\<dots> = card (set (map Name ?images))" using d by (simp only: distinct_card)
    finally have "length ?images = card {name. ?P name}" using s by simp
    with run d s have "\<exists>images. extractImagesFromPage ctx ord pageNr = Inr images \<and>
                distinct (map Name images) \<and>
                set (map Name images) = {name. ?P name} \<and>
                length images = card {name. ?P name}" by blast
  }
  then show ?thesis using Some by simp
qed

lemma page_records_are_image_entries_example:
  "PageDict exCtx 1 = Inr exPage1 \<and> resolveXObject exCtx exPage1 = Some exXObject1 \<and>
   rangeOrder exXObject1 (exOrds 1) \<and> (\<forall>name. \<not> nilEntry exCtx exXObject1 name) \<and>
   extractImagesFromPage exCtx (exOrds 1) 1 = Inr [exRecord2, exRecord1] \<and>
   {name. imageEntry exCtx exXObject1 name \<noteq> None} = {''Im1'', ''Im2''} \<and>
   card {name. imageEntry exCtx exXObject1 name \<noteq> None} = 2"
  using page_records_are_image_entries [OF ex_pages(1), of "exOrds 1"]
    ex_pages(1) ex_xobjects(1) ex_orders(1) ex_no_nil ex_runs(1)
  by (auto simp add: exRecord1_def exRecord2_def)

text \<open>C2, amended: for every page whose page dictionary the library returns: if the
  \<open>Resources\<close> entry does not resolve to a dictionary (it is absent, or is neither a
  dictionary nor an indirect reference, or is an indirect reference whose single dereference
  fails or yields something else than a dictionary, see \<open>resolveDict_None_iff\<close>), or if it
  resolves to a dictionary whose \<open>XObject\<close> entry does not resolve to a dictionary in the
  same sense, then the page scan returns the empty list of records and no error. (When the
  library returns an error instead of the page dictionary, the page scan returns that
  error, before any test on \<open>Resources\<close>.)\<close>

theorem no_xobject_dictionary_no_records:
  assumes "PageDict ctx pageNr = Inr pageDict"
    and "resolveDict ctx (fmlookup pageDict ''Resources'') = None \<or>
         (\<exists>resDict. resolveDict ctx (fmlookup pageDict ''Resources'') = Some resDict \<and>
            resolveDict ctx (fmlookup resDict ''XObject'') = None)"
  shows "extractImagesFromPage ctx ord pageNr = Inr []"
proof -
  from assms(2) have "resolveXObject ctx pageDict = None"
    by (auto simp: resolveXObject_def)
  with assms(1) show ?thesis by (simp add: extractImagesFromPage_eq)
qed

theorem no_xobject_dictionary_no_records_witness:
  "PageDict exCtx 2 = Inr fmempty \<and>
   resolveDict exCtx (fmlookup fmempty ''Resources'') = None \<and>
   extractImagesFromPage exCtx (exOrds 2) 2 = Inr [] \<and>
   PageDict (exCtx\<lparr>PageDict := \<lambda>pageNr. Inr exPageNoDict\<rparr>) 1 = Inr exPageNoDict \<and>
   resolveDict (exCtx\<lparr>PageDict := \<lambda>pageNr. Inr exPageNoDict\<rparr>) (fmlookup exPageNoDict ''Resources'') =
     Some (fmupd ''XObject'' (types_IndirectRef (ref 99)) fmempty) \<and>
   resolveDict (exCtx\<lparr>PageDict := \<lambda>pageNr. Inr exPageNoDict\<rparr>)
     (fmlookup (fmupd ''XObject'' (types_IndirectRef (ref 99)) fmempty) ''XObject'') = None \<and>
   extractImagesFromPage (exCtx\<lparr>PageDict := \<lambda>pageNr. Inr exPageNoDict\<rparr>) (exOrds 1) 1 = Inr []"
proof -
  let ?ctx = "exCtx\<lparr>PageDict := \<lambda>pageNr. Inr exPageNoDict\<rparr>"
  have a: "resolveDict exCtx (fmlookup fmempty ''Resources'') = None"
    by (simp add: resolveDict_def)
  have b: "PageDict ?ctx 1 = Inr exPageNoDict" by simp
  have c: "resolveDict ?ctx (fmlookup exPageNoDict ''Resources'') =
     Some (fmupd ''XObject'' (types_IndirectRef (ref 99)) fmempty)"
    by (simp add: resolveDict_def exPageNoDict_def)
  have d: "resolveDict ?ctx
     (fmlookup (fmupd ''XObject'' (types_IndirectRef (ref 99)) fmempty) ''XObject'') = None"
    by (simp add: resolveDict_def exCtx_def exDereference_def ref_def)
  from no_xobject_dictionary_no_records [OF ex_pages(2), of "exOrds 2"] a
       no_xobject_dictionary_no_records [OF b, of "exOrds 1"] c d ex_pages(2) b
  show ?thesis by simp
qed

text \<open>C2 as it is stated, for every page and without the condition that the page dictionary
  is returned, fails: on the pages of \<open>exCtxWrong\<close> the \<open>Resources\<close> entry is not a dictionary
  (an integer on page 1, a reference to an integer on page 2), the library call for the page
  dictionary fails on that entry, and the page scan returns an error, not the empty list;
  the whole scan ends with that error at page 1.\<close>

theorem page_with_wrong_resources_counterexample:
  "exWrongPages 1 = Some exWrongPage1 \<and>
   fmlookup exWrongPage1 ''Resources'' = Some (types_Integer 7) \<and>
   resolveDict exCtxWrong (fmlookup exWrongPage1 ''Resources'') = None \<and>
   extractImagesFromPage exCtxWrong (exOrds 1) 1 =
     Inl (Error (ErrGetPageDict (ErrLibrary ''pdfcpu: dereferenceDict: wrong type''))) \<and>
   extractImagesFromPage exCtxWrong (exOrds 1) 1 \<noteq> Inr [] \<and>
   exWrongPages 2 = Some exWrongPage2 \<and>
   fmlookup exWrongPage2 ''Resources'' = Some (types_IndirectRef (ref 30)) \<and>
   Dereference exCtxWrong (ref 30) = Inr (types_Integer 7) \<and>
   resolveDict exCtxWrong (fmlookup exWrongPage2 ''Resources'') = None \<and>
   extractImagesFromPage exCtxWrong (exOrds 2) 2 =
     Inl (Error (ErrGetPageDict (ErrLibrary ''pdfcpu: dereferenceDict: wrong type''))) \<and>
   extractImagesFromPage exCtxWrong (exOrds 2) 2 \<noteq> Inr [] \<and>
   extractAllImages exCtxWrong exOrds =
     (Some (Error (ErrExtractPage 1
        (ErrGetPageDict (ErrLibrary ''pdfcpu: dereferenceDict: wrong type'')))),
      [PrintPageCount 2, PrintDoubleRule])"
proof -
  have p: "PageDict exCtxWrong 1 = Inl (ErrLibrary ''pdfcpu: dereferenceDict: wrong type'')"
    "PageDict exCtxWrong 2 = Inl (ErrLibrary ''pdfcpu: dereferenceDict: wrong type'')"
    by (simp_all add: exCtxWrong_def pdfcpu_PageDict_def exWrongPages_def exWrongPage1_def
        exWrongPage2_def exWrongDereference_def ref_def)
  have r: "extractImagesFromPage exCtxWrong (exOrds 1) 1 =
      Inl (Error (ErrGetPageDict (ErrLibrary ''pdfcpu: dereferenceDict: wrong type'')))"
    "extractImagesFromPage exCtxWrong (exOrds 2) 2 =
      Inl (Error (ErrGetPageDict (ErrLibrary ''pdfcpu: dereferenceDict: wrong type'')))"
    by (simp_all add: extractImagesFromPage_eq p)
  have d: "Dereference exCtxWrong (ref 30) = Inr (types_Integer 7)"
    by (simp add: exCtxWrong_def exWrongDereference_def ref_def)
  have n: "resolveDict exCtxWrong (fmlookup exWrongPage1 ''Resources'') = None"
    "resolveDict exCtxWrong (fmlookup exWrongPage2 ''Resources'') = None"
    by (simp_all add: resolveDict_def exWrongPage1_def exWrongPage2_def d)
  have pc: "PageCount exCtxWrong = 2"
    by (simp add: exCtxWrong_def)
  have scan: "extractAllImages exCtxWrong exOrds =
     (Some (Error (ErrExtractPage 1
        (ErrGetPageDict (ErrLibrary ''pdfcpu: dereferenceDict: wrong type'')))),
      [PrintPageCount 2, PrintDoubleRule])"
    by (simp add: extractAllImages_def pc pagesLoop.simps [of _ _ _ 1] r)
  from r d n scan show ?thesis
    by (simp add: exWrongPages_def exWrongPage1_def exWrongPage2_def)
qed

text \<open>C3: an entry of the resolved XObject dictionary whose value is not an indirect reference
  is passed over by the loop (the records built so far are unchanged), and no record of the
  page has its name.\<close>

theorem direct_entries_yield_no_record:
  assumes "PageDict ctx pageNr = Inr pageDict"
    and "resolveXObject ctx pageDict = Some xObject"
    and "fmlookup xObject name = Some v"
    and "\<forall>ir. v \<noteq> types_IndirectRef ir"
  shows "rangeXObject ctx pageNr xObject (name # names) acc =
           rangeXObject ctx pageNr xObject names acc \<and>
         (\<forall>images. extractImagesFromPage ctx ord pageNr = Inr images \<longrightarrow>
            name \<notin> Name ` set images)"
proof
  from assms(3,4) show "rangeXObject ctx pageNr xObject (name # names) acc =
           rangeXObject ctx pageNr xObject names acc"
    by (cases v) simp_all
next
  show "\<forall>images. extractImagesFromPage ctx ord pageNr = Inr images \<longrightarrow> name \<notin> Name ` set images"
  proof (intro allI impI notI)
    fix images
    assume run: "extractImagesFromPage ctx ord pageNr = Inr images" and "name \<in> Name ` set images"
    then obtain img where img: "img \<in> set images" "Name img = name" by auto
    from page_run_records [OF run img(1)] assms(1,2) img(2)
    obtain ir sd where "imageEntry ctx xObject name = Some (ir, sd)"
      by (auto simp: extractImageInfo_identity)
    then have "fmlookup xObject name = Some (types_IndirectRef ir)"
      by (simp add: imageEntry_Some)
    with assms(3,4) show False by auto
  qed
qed

theorem direct_entries_yield_no_record_witness:
  "PageDict exCtx 1 = Inr exPage1 \<and> resolveXObject exCtx exPage1 = Some exXObject1 \<and>
   fmlookup exXObject1 ''Bad'' = Some (types_Integer 7) \<and>
   (\<forall>ir. types_Integer 7 \<noteq> types_IndirectRef ir) \<and>
   rangeXObject exCtx 1 exXObject1 [''Bad''] [] = Inr [] \<and>
   extractImagesFromPage exCtx (exOrds 1) 1 = Inr [exRecord2, exRecord1] \<and>
   ''Bad'' \<notin> Name ` set [exRecord2, exRecord1]"
proof -
  have l: "fmlookup exXObject1 ''Bad'' = Some (types_Integer 7)"
    by (simp add: exXObject1_def)
  have n: "\<forall>ir. types_Integer 7 \<noteq> types_IndirectRef ir" by simp
  from direct_entries_yield_no_record [OF ex_pages(1) ex_xobjects(1) l n, of "[]" "[]" "exOrds 1"]
    ex_pages(1) ex_xobjects(1) l ex_runs(1)
  show ?thesis by simp
qed

subsection \<open>Fields of a record\<close>

text \<open>C4: the colour space of a record is the \<open>ColorSpace\<close> entry of the stream dictionary when
  that entry is a name, the first element of that entry when it is an array whose first
  element is a name, and the empty string in every other case. In particular
  \<open>/DeviceRGB\<close> gives \<open>DeviceRGB\<close>, and \<open>[/Indexed /DeviceRGB 255 r]\<close>, with \<open>r\<close> a reference,
  gives \<open>Indexed\<close>.\<close>

theorem colorspace_extraction:
  "ColorSpace (extractImageInfo ctx pageNr name ir sd) =
     (case fmlookup (Dict sd) ''ColorSpace'' of
        Some (types_Name cs) \<Rightarrow> cs
      | Some (types_Array (types_Name cs # rest)) \<Rightarrow> cs
      | _ \<Rightarrow> [])
   \<and> (fmlookup (Dict sd) ''ColorSpace'' = Some (types_Name ''DeviceRGB'') \<longrightarrow>
        ColorSpace (extractImageInfo ctx pageNr name ir sd) = ''DeviceRGB'')
   \<and> (fmlookup (Dict sd) ''ColorSpace'' =
          Some (types_Array [types_Name ''Indexed'', types_Name ''DeviceRGB'',
                             types_Integer 255, types_IndirectRef r]) \<longrightarrow>
        ColorSpace (extractImageInfo ctx pageNr name ir sd) = ''Indexed'')"
  by (simp add: extractImageInfo_ColorSpace NameEntry_def ArrayEntry_def
      split: option.split object.split list.split)

theorem colorspace_extraction_witness:
  "fmlookup (Dict exStream1) ''ColorSpace'' = Some (types_Name ''DeviceRGB'')
   \<and> ColorSpace (extractImageInfo exCtx 1 ''Im1'' (ref 10) exStream1) = ''DeviceRGB''
   \<and> fmlookup (Dict exStream2) ''ColorSpace'' =
          Some (types_Array [types_Name ''Indexed'', types_Name ''DeviceRGB'',
                             types_Integer 255, types_IndirectRef (ref 30)])
   \<and> ColorSpace (extractImageInfo exCtx 3 ''Im2'' (ref 12) exStream2) = ''Indexed''"
  using colorspace_extraction [of exCtx 1 "''Im1''" "ref 10" exStream1 "ref 30"]
        colorspace_extraction [of exCtx 3 "''Im2''" "ref 12" exStream2 "ref 30"]
  by (simp add: exStream1_def exStream2_def)

text \<open>C5: the filter field of a record is the names of the filters of the stream, in the
  order of the pipeline, joined with a comma and a space: the first name, then every further
  name after a separator. It is the empty string when the stream has no filter; the pipeline
  \<open>[DCTDecode]\<close> gives \<open>DCTDecode\<close> and \<open>[ASCII85Decode, DCTDecode]\<close> gives
  \<open>ASCII85Decode, DCTDecode\<close>.\<close>

theorem filter_chain_extraction:
  "Filter (extractImageInfo ctx pageNr name ir sd) =
     strings_Join (map Name_PDFFilter (FilterPipeline sd)) '', ''
   \<and> Filter (extractImageInfo ctx pageNr name ir sd) =
       (case map Name_PDFFilter (FilterPipeline sd) of
          [] \<Rightarrow> []
        | f # fs \<Rightarrow> f @ concat (map ((@) '', '') fs))
   \<and> (FilterPipeline sd = [] \<longrightarrow> Filter (extractImageInfo ctx pageNr name ir sd) = [])
   \<and> (map Name_PDFFilter (FilterPipeline sd) = [''DCTDecode''] \<longrightarrow>
        Filter (extractImageInfo ctx pageNr name ir sd) = ''DCTDecode'')
   \<and> (map Name_PDFFilter (FilterPipeline sd) = [''ASCII85Decode'', ''DCTDecode''] \<longrightarrow>
        Filter (extractImageInfo ctx pageNr name ir sd) = ''ASCII85Decode, DCTDecode'')"
  by (simp add: extractImageInfo_Filter strings_Join_Cons split: list.split)

theorem filter_chain_extraction_witness:
  "map Name_PDFFilter (FilterPipeline exStream1) = [''DCTDecode'']
   \<and> Filter (extractImageInfo exCtx 1 ''Im1'' (ref 10) exStream1) = ''DCTDecode''
   \<and> map Name_PDFFilter (FilterPipeline exStream2) = [''ASCII85Decode'', ''DCTDecode'']
   \<and> Filter (extractImageInfo exCtx 3 ''Im2'' (ref 12) exStream2) = ''ASCII85Decode, DCTDecode''
   \<and> FilterPipeline exForm = []
   \<and> Filter (extractImageInfo exCtx 1 ''Fm1'' (ref 11) exForm) = []"
  using filter_chain_extraction [of exCtx 1 "''Im1''" "ref 10" exStream1]
        filter_chain_extraction [of exCtx 3 "''Im2''" "ref 12" exStream2]
        filter_chain_extraction [of exCtx 1 "''Fm1''" "ref 11" exForm]
  by (simp add: exStream1_def exStream2_def exForm_def)

text \<open>C6: \<open>extractImageInfo\<close> has no failure: it is a total function that returns a record for
  every stream dictionary. A missing width, height, colour space or bits-per-component
  entry, or an empty filter pipeline, leaves the field of that name at \<open>0\<close> or the empty
  string, and the identity fields and the size are set whatever is missing. In the loop,
  every entry that is a reference to a stream dictionary passing the image test appends its
  record, whatever fields are missing.\<close>

theorem missing_fields_default:
  "(fmlookup (Dict sd) ''Width'' = None \<longrightarrow> Width (extractImageInfo ctx pageNr name ir sd) = 0)
   \<and> (fmlookup (Dict sd) ''Height'' = None \<longrightarrow> Height (extractImageInfo ctx pageNr name ir sd) = 0)
   \<and> (fmlookup (Dict sd) ''ColorSpace'' = None \<longrightarrow>
        ColorSpace (extractImageInfo ctx pageNr name ir sd) = [])
   \<and> (fmlookup (Dict sd) ''BitsPerComponent'' = None \<longrightarrow>
        BitsPerComp (extractImageInfo ctx pageNr name ir sd) = 0)
   \<and> (FilterPipeline sd = [] \<longrightarrow> Filter (extractImageInfo ctx pageNr name ir sd) = [])
   \<and> PageNr (extractImageInfo ctx pageNr name ir sd) = pageNr
   \<and> ObjectNr (extractImageInfo ctx pageNr name ir sd) = ObjectNumber ir
   \<and> GenNr (extractImageInfo ctx pageNr name ir sd) = GenerationNumber ir
   \<and> Name (extractImageInfo ctx pageNr name ir sd) = name
   \<and> Size (extractImageInfo ctx pageNr name ir sd) = int (length (Raw sd))
   \<and> (fmlookup xObject name = Some (types_IndirectRef ir) \<and>
       DereferenceXObjectDict ctx ir = Inr (Some sd) \<and> Image_StreamDict sd \<longrightarrow>
        rangeXObject ctx pageNr xObject [name] images =
          Inr (images @ [extractImageInfo ctx pageNr name ir sd]))"
  by (simp add: extractImageInfo_identity extractImageInfo_ints extractImageInfo_ColorSpace
      extractImageInfo_Filter IntEntry_def NameEntry_def ArrayEntry_def)

theorem missing_fields_default_witness:
  "fmlookup (Dict exBare) ''Width'' = None \<and> fmlookup (Dict exBare) ''Height'' = None
   \<and> fmlookup (Dict exBare) ''ColorSpace'' = None
   \<and> fmlookup (Dict exBare) ''BitsPerComponent'' = None \<and> FilterPipeline exBare = []
   \<and> extractImageInfo exCtx 3 ''Im2'' (ref 12) exBare =
       \<lparr>PageNr = 3, ObjectNr = 12, GenNr = 0, Name = ''Im2'', Width = 0, Height = 0,
        ColorSpace = [], BitsPerComp = 0, Filter = [], Size = 0\<rparr>
   \<and> fmlookup exXObject3 ''Im2'' = Some (types_IndirectRef (ref 12))
   \<and> DereferenceXObjectDict (exCtx\<lparr>DereferenceXObjectDict := \<lambda>ir. Inr (Some exBare)\<rparr>) (ref 12)
        = Inr (Some exBare)
   \<and> Image_StreamDict exBare
   \<and> rangeXObject (exCtx\<lparr>DereferenceXObjectDict := \<lambda>ir. Inr (Some exBare)\<rparr>) 3 exXObject3 [''Im2''] [] =
       Inr [\<lparr>PageNr = 3, ObjectNr = 12, GenNr = 0, Name = ''Im2'', Width = 0, Height = 0,
        ColorSpace = [], BitsPerComp = 0, Filter = [], Size = 0\<rparr>]"
proof -
  let ?ctx = "exCtx\<lparr>DereferenceXObjectDict := \<lambda>ir. Inr (Some exBare)\<rparr>"
  have eq: "extractImageInfo ?ctx 3 ''Im2'' (ref 12) exBare = extractImageInfo exCtx 3 ''Im2'' (ref 12) exBare"
    by (simp add: extractImageInfo_def)
  have r: "extractImageInfo exCtx 3 ''Im2'' (ref 12) exBare =
       \<lparr>PageNr = 3, ObjectNr = 12, GenNr = 0, Name = ''Im2'', Width = 0, Height = 0,
        ColorSpace = [], BitsPerComp = 0, Filter = [], Size = 0\<rparr>"
    using missing_fields_default [of exBare exCtx 3 "''Im2''" "ref 12" exXObject3 "[]"]
    by (simp add: exBare_def ref_def)
  show ?thesis
    using missing_fields_default [of exBare ?ctx 3 "''Im2''" "ref 12" exXObject3 "[]"] r eq
    by (simp add: exBare_def exXObject3_def)
qed

text \<open>C10: every record returned by the scan of page \<open>pageNr\<close> has that page number; its name is
  a key of the resolved XObject dictionary of the page, the value under that key is the
  indirect reference with the record's object and generation numbers, that reference
  dereferences to a stream dictionary passing the image test, and the size of the record is
  the number of stored bytes of that stream, which is not negative.\<close>

theorem record_identity:
  assumes "extractImagesFromPage ctx ord pageNr = Inr images" and "img \<in> set images"
  shows "PageNr img = pageNr \<and> 0 \<le> Size img \<and>
         (\<exists>pageDict xObject sd.
            PageDict ctx pageNr = Inr pageDict \<and> resolveXObject ctx pageDict = Some xObject \<and>
            fmlookup xObject (Name img) =
              Some (types_IndirectRef \<lparr>ObjectNumber = ObjectNr img, GenerationNumber = GenNr img\<rparr>) \<and>
            DereferenceXObjectDict ctx \<lparr>ObjectNumber = ObjectNr img, GenerationNumber = GenNr img\<rparr> =
              Inr (Some sd) \<and>
            Image_StreamDict sd \<and> Size img = int (length (Raw sd)))"
proof -
  from page_run_records [OF assms] obtain pageDict xObject name ir sd where
    pd: "PageDict ctx pageNr = Inr pageDict" and xo: "resolveXObject ctx pageDict = Some xObject" and
    entry: "imageEntry ctx xObject name = Some (ir, sd)" and
    img: "img = extractImageInfo ctx pageNr name ir sd"
    by blast
  have ir: "\<lparr>ObjectNumber = ObjectNr img, GenerationNumber = GenNr img\<rparr> = ir"
    by (simp add: img extractImageInfo_identity)
  from entry have "fmlookup xObject (Name img) = Some (types_IndirectRef ir)"
    "DereferenceXObjectDict ctx ir = Inr (Some sd)" "Image_StreamDict sd"
    by (simp_all add: imageEntry_Some img extractImageInfo_identity)
  moreover have "PageNr img = pageNr" "Size img = int (length (Raw sd))"
    by (simp_all add: img extractImageInfo_identity)
  ultimately show ?thesis using pd xo unfolding ir by auto
qed

theorem record_identity_witness:
  "extractImagesFromPage exCtx (exOrds 1) 1 = Inr [exRecord2, exRecord1] \<and>
   exRecord1 \<in> set [exRecord2, exRecord1] \<and>
   PageNr exRecord1 = 1 \<and> 0 \<le> Size exRecord1 \<and>
   PageDict exCtx 1 = Inr exPage1 \<and> resolveXObject exCtx exPage1 = Some exXObject1 \<and>
   fmlookup exXObject1 (Name exRecord1) =
     Some (types_IndirectRef \<lparr>ObjectNumber = ObjectNr exRecord1, GenerationNumber = GenNr exRecord1\<rparr>) \<and>
   DereferenceXObjectDict exCtx \<lparr>ObjectNumber = ObjectNr exRecord1, GenerationNumber = GenNr exRecord1\<rparr> =
     Inr (Some exStream1) \<and>
   Image_StreamDict exStream1 \<and> Size exRecord1 = int (length (Raw exStream1))"
proof -
  have m: "exRecord1 \<in> set [exRecord2, exRecord1]" by simp
  have d: "DereferenceXObjectDict exCtx \<lparr>ObjectNumber = 10, GenerationNumber = 0\<rparr> = Inr (Some exStream1)"
    by (simp add: exCtx_def exDereferenceXObjectDict_def)
  from record_identity [OF ex_runs(1) m] ex_runs(1) ex_pages(1) ex_xobjects(1) d
  show ?thesis by (auto simp: exRecord1_def)
qed

subsection \<open>The scan of the document\<close>

text \<open>C7: let page \<open>k\<close>, among the pages \<open>1..PageCount\<close>, be the first page that does not return
  its records, and let it fail because the library returns an error for its page
  dictionary. Then the page scan returns that error wrapped ("failed to get page dict"),
  the whole scan returns it wrapped again with the page number \<open>k\<close>, and what was
  printed is the header and the output of the pages before \<open>k\<close>: nothing of page \<open>k\<close> or of
  a later page, and no total.\<close>

theorem page_dict_failure_aborts_scan:
  assumes "1 \<le> k" and "k \<le> PageCount ctx" and "PageDict ctx k = Inl err"
    and "\<forall>m \<in> {1..<k}. \<exists>images. extractImagesFromPage ctx (ords m) m = Inr images"
  shows "extractImagesFromPage ctx (ords k) k = Inl (Error (ErrGetPageDict err)) \<and>
         extractAllImages ctx ords =
           (Some (Error (ErrExtractPage k (ErrGetPageDict err))),
            [PrintPageCount (PageCount ctx), PrintDoubleRule] @
              concat (map (\<lambda>m. pageOutput m (pageImages ctx ords m)) [1..k - 1]))"
proof -
  have run: "extractImagesFromPage ctx (ords k) k = Inl (Error (ErrGetPageDict err))"
    using assms(3) by (simp add: extractImagesFromPage_eq)
  from assms(1,2) have "PageCount ctx \<noteq> 0" by simp
  then show ?thesis
    using run pagesLoop_first_abort [OF assms(1,2,4) run]
    by (simp add: extractAllImages_def)
qed

theorem page_dict_failure_aborts_scan_witness:
  "(1::int) \<le> 4 \<and> 4 \<le> PageCount (exCtx\<lparr>PageCount := 4\<rparr>) \<and>
   PageDict (exCtx\<lparr>PageCount := 4\<rparr>) 4 = Inl (ErrLibrary ''pdfcpu: page not found'') \<and>
   extractImagesFromPage (exCtx\<lparr>PageCount := 4\<rparr>) (exOrds 1) 1 = Inr [exRecord2, exRecord1] \<and>
   extractImagesFromPage (exCtx\<lparr>PageCount := 4\<rparr>) (exOrds 2) 2 = Inr [] \<and>
   extractImagesFromPage (exCtx\<lparr>PageCount := 4\<rparr>) (exOrds 3) 3 = Inr [exRecord3] \<and>
   extractAllImages (exCtx\<lparr>PageCount := 4\<rparr>) exOrds =
     (Some (Error (ErrExtractPage 4 (ErrGetPageDict (ErrLibrary ''pdfcpu: page not found'')))),
      [PrintPageCount 4, PrintDoubleRule,
       PrintPageFound 1 2, PrintSingleRule, PrintImageInfo 1 exRecord2, PrintImageInfo 2 exRecord1,
       PrintPageFound 3 1, PrintSingleRule, PrintImageInfo 1 exRecord3])"
proof -
  let ?ctx = "exCtx\<lparr>PageCount := 4\<rparr>"
  have runs: "extractImagesFromPage ?ctx (exOrds 1) 1 = Inr [exRecord2, exRecord1]"
    "extractImagesFromPage ?ctx (exOrds 2) 2 = Inr []"
    "extractImagesFromPage ?ctx (exOrds 3) 3 = Inr [exRecord3]"
    by (simp_all add: extractImagesFromPage_PageCount ex_runs)
  have earlier: "\<forall>m \<in> {1..<4}. \<exists>images. extractImagesFromPage ?ctx (exOrds m) m = Inr images"
  proof
    fix m :: int assume "m \<in> {1..<4}"
    then have "m = 1 \<or> m = 2 \<or> m = 3" by auto
    then show "\<exists>images. extractImagesFromPage ?ctx (exOrds m) m = Inr images"
      using runs by auto
  qed
  have pd: "PageDict ?ctx 4 = Inl (ErrLibrary ''pdfcpu: page not found'')"
    by (simp add: ex_pages)
  have pc: "4 \<le> PageCount ?ctx" by simp
  have pages: "[1..4 - 1] = [1, 2, 3::int]"
    by (simp add: upto_rec1)
  from page_dict_failure_aborts_scan [OF _ pc pd earlier] runs pd
  show ?thesis
    unfolding pages by (simp add: pageImages_def pageOutput_def)
qed

text \<open>C8: when the declared page count is 0, \<open>extractAllImages\<close> returns the error
  "PDF has no pages" and has printed nothing: no page was processed, whatever the
  pages of the document hold and whatever order the runtime would choose.\<close>

theorem extractAllImages_no_pages:
  "PageCount ctx = 0 \<Longrightarrow> extractAllImages ctx ords = (Some (Error ErrNoPages), [])"
  by (simp add: extractAllImages_def)

theorem extractAllImages_no_pages_witness:
  "PageCount (exCtx\<lparr>PageCount := 0\<rparr>) = 0
   \<and> extractAllImages (exCtx\<lparr>PageCount := 0\<rparr>) exOrds = (Some (Error ErrNoPages), [])"
  using extractAllImages_no_pages [of "exCtx\<lparr>PageCount := 0\<rparr>" exOrds] by simp

text \<open>C9: when the scan returns without an error, the one total it prints is the sum over the
  pages \<open>1..PageCount\<close> of the numbers of records of the pages, and the records it prints are
  those of the pages, page after page. The scan is deterministic up to the order in which the
  runtime visits the XObject dictionaries: two runs over the same document, with any two
  range orders, return the same result (the same error, the same panic, or none), print the
  same total and print the same records with the same field values, as a multiset (the order
  of the records of one page follows the order of the visit).\<close>

theorem scan_total_and_determinism:
  assumes "rangeOrders ctx ords" and "rangeOrders ctx ords'"
  shows "(fst (extractAllImages ctx ords) = None \<longrightarrow>
            totalsOf (snd (extractAllImages ctx ords)) =
              [\<Sum>m = 1..PageCount ctx. int (length (pageImages ctx ords m))] \<and>
            recordsOf (snd (extractAllImages ctx ords)) =
              concat (map (pageImages ctx ords) [1..PageCount ctx]))
         \<and> fst (extractAllImages ctx ords') = fst (extractAllImages ctx ords)
         \<and> totalsOf (snd (extractAllImages ctx ords')) = totalsOf (snd (extractAllImages ctx ords))
         \<and> mset (recordsOf (snd (extractAllImages ctx ords'))) =
             mset (recordsOf (snd (extractAllImages ctx ords)))"
proof (cases "PageCount ctx = 0")
  case True
  then show ?thesis by (simp add: extractAllImages_def)
next
  case False
  let ?header = "[PrintPageCount (PageCount ctx), PrintDoubleRule]"
  let ?L = "\<lambda>ords. pagesLoop ctx ords (PageCount ctx) 1 0 ?header"
  have total: "totalsOf (snd (extractAllImages ctx ords)) =
              [\<Sum>m = 1..PageCount ctx. int (length (pageImages ctx ords m))] \<and>
            recordsOf (snd (extractAllImages ctx ords)) =
              concat (map (pageImages ctx ords) [1..PageCount ctx])"
    if ok: "fst (extractAllImages ctx ords) = None"
  proof -
    from ok False obtain t where "fst (?L ords) = Inr t"
      by (auto simp: extractAllImages_fst_snd split: sum.splits)
    then have "\<forall>m \<in> {1..PageCount ctx}. \<exists>images. extractImagesFromPage ctx (ords m) m = Inr images"
      by (rule pagesLoop_Inr_all)
    then have "?L ords =
        (Inr (0 + (\<Sum>m = 1..PageCount ctx. int (length (pageImages ctx ords m)))),
         ?header @ concat (map (\<lambda>m. pageOutput m (pageImages ctx ords m)) [1..PageCount ctx]))"
      by (rule pagesLoop_all)
    then show ?thesis
      using False
      by (simp add: extractAllImages_fst_snd recordsOf_append totalsOf_append
          recordsOf_pages totalsOf_pages)
  qed
  have same: "\<forall>m \<in> {1..PageCount ctx}.
             unordered (extractImagesFromPage ctx (ords m) m) =
             unordered (extractImagesFromPage ctx (ords' m) m)"
    using rangeOrders_page [OF assms] by blast
  have det: "fst (?L ords) = fst (?L ords') \<and>
         mset (recordsOf (snd (?L ords))) = mset (recordsOf (snd (?L ords'))) \<and>
         totalsOf (snd (?L ords)) = totalsOf (snd (?L ords'))"
    by (rule pagesLoop_order_independent [OF same]) simp_all
  have "fst (extractAllImages ctx ords') = fst (extractAllImages ctx ords)
         \<and> totalsOf (snd (extractAllImages ctx ords')) = totalsOf (snd (extractAllImages ctx ords))
         \<and> mset (recordsOf (snd (extractAllImages ctx ords'))) =
             mset (recordsOf (snd (extractAllImages ctx ords)))"
    using det False
    by (simp add: extractAllImages_fst_snd recordsOf_append totalsOf_append split: sum.split)
  with total show ?thesis by blast
qed

theorem scan_total_and_determinism_witness:
  "rangeOrders exCtx exOrds \<and> rangeOrders exCtx exOrds' \<and>
   fst (extractAllImages exCtx exOrds) = None \<and>
   totalsOf (snd (extractAllImages exCtx exOrds)) = [3] \<and>
   (\<Sum>m = 1..PageCount exCtx. int (length (pageImages exCtx exOrds m))) = 3 \<and>
   recordsOf (snd (extractAllImages exCtx exOrds)) = [exRecord2, exRecord1, exRecord3] \<and>
   fst (extractAllImages exCtx exOrds') = None \<and>
   totalsOf (snd (extractAllImages exCtx exOrds')) = [3] \<and>
   recordsOf (snd (extractAllImages exCtx exOrds')) = [exRecord1, exRecord2, exRecord3] \<and>
   mset (recordsOf (snd (extractAllImages exCtx exOrds'))) =
     mset (recordsOf (snd (extractAllImages exCtx exOrds)))"
proof -
  from scan_total_and_determinism [OF ex_rangeOrders]
  have "totalsOf (snd (extractAllImages exCtx exOrds)) =
          [\<Sum>m = 1..PageCount exCtx. int (length (pageImages exCtx exOrds m))]"
    by (simp add: ex_scan)
  then have "(\<Sum>m = 1..PageCount exCtx. int (length (pageImages exCtx exOrds m))) = 3"
    by (simp add: ex_scan)
  then show ?thesis
    using ex_rangeOrders by (simp add: ex_scan)
qed

end
